theory Spec2Isabelle
  imports Complex_Main
begin

section \<open>JavaScript numbers\<close>

text \<open>
  The engine (\<^verbatim>\<open>financialCalculations.ts\<close>) computes on JavaScript numbers. A number is
  modelled as a finite real, one of the two infinities, or NaN. Division by zero, the
  arithmetic of the infinities, the comparisons with NaN and the truthiness test of
  \<^verbatim>\<open>||\<close> are written out as IEEE 754 fixes them. Two idealisations remain: finite
  arithmetic is exact (no rounding to 53 bits, no overflow to an infinity), and the two
  zeros are one (\<^verbatim>\<open>-0\<close> is \<^verbatim>\<open>0\<close>, so \<^verbatim>\<open>x / 0\<close> takes the sign of \<^verbatim>\<open>x\<close>).
\<close>

datatype jsnum = Num real | PosInf | NegInf | NaN

fun js_finite :: "jsnum \<Rightarrow> bool" where
  "js_finite (Num r) = True"
| "js_finite PosInf = False"
| "js_finite NegInf = False"
| "js_finite NaN = False"

fun js_neg :: "jsnum \<Rightarrow> jsnum" where
  "js_neg (Num r) = Num (- r)"
| "js_neg PosInf = NegInf"
| "js_neg NegInf = PosInf"
| "js_neg NaN = NaN"

text \<open>\<^verbatim>\<open>a + b\<close>\<close>

fun js_add :: "jsnum \<Rightarrow> jsnum \<Rightarrow> jsnum" where
  "js_add NaN b = NaN"
| "js_add a NaN = NaN"
| "js_add (Num a) (Num b) = Num (a + b)"
| "js_add (Num a) PosInf = PosInf"
| "js_add (Num a) NegInf = NegInf"
| "js_add PosInf (Num b) = PosInf"
| "js_add NegInf (Num b) = NegInf"
| "js_add PosInf PosInf = PosInf"
| "js_add NegInf NegInf = NegInf"
| "js_add PosInf NegInf = NaN"
| "js_add NegInf PosInf = NaN"

text \<open>\<^verbatim>\<open>a - b\<close>\<close>

definition js_sub :: "jsnum \<Rightarrow> jsnum \<Rightarrow> jsnum" where
  "js_sub a b = js_add a (js_neg b)"

text \<open>The sign of a number that is not NaN: \<open>1\<close>, \<open>0\<close> or \<open>-1\<close>.\<close>

fun js_sign :: "jsnum \<Rightarrow> real" where
  "js_sign (Num r) = sgn r"
| "js_sign PosInf = 1"
| "js_sign NegInf = - 1"
| "js_sign NaN = 0"

definition signed_inf :: "real \<Rightarrow> jsnum" where
  "signed_inf s = (if s = 0 then NaN else if 0 < s then PosInf else NegInf)"

text \<open>\<^verbatim>\<open>a * b\<close>: an infinity times zero is NaN.\<close>

fun js_mul :: "jsnum \<Rightarrow> jsnum \<Rightarrow> jsnum" where
  "js_mul NaN b = NaN"
| "js_mul a NaN = NaN"
| "js_mul (Num a) (Num b) = Num (a * b)"
| "js_mul a b = signed_inf (js_sign a * js_sign b)"

text \<open>
  \<^verbatim>\<open>a / b\<close>: zero by zero and infinity by infinity are NaN, another finite number by zero
  is the infinity of its sign, a finite number by an infinity is zero.
\<close>

fun js_div :: "jsnum \<Rightarrow> jsnum \<Rightarrow> jsnum" where
  "js_div NaN b = NaN"
| "js_div a NaN = NaN"
| "js_div (Num a) (Num b) = (if b = 0 then signed_inf (sgn a) else Num (a / b))"
| "js_div (Num a) PosInf = Num 0"
| "js_div (Num a) NegInf = Num 0"
| "js_div PosInf (Num b) = (if 0 \<le> b then PosInf else NegInf)"
| "js_div NegInf (Num b) = (if 0 \<le> b then NegInf else PosInf)"
| "js_div a b = NaN"

text \<open>\<^verbatim>\<open>a < b\<close>, \<^verbatim>\<open>a <= b\<close>, \<^verbatim>\<open>a > b\<close>, \<^verbatim>\<open>a >= b\<close>: every comparison with NaN is false.\<close>

fun js_lt :: "jsnum \<Rightarrow> jsnum \<Rightarrow> bool" where
  "js_lt NaN b = False"
| "js_lt a NaN = False"
| "js_lt (Num a) (Num b) = (a < b)"
| "js_lt a PosInf = (a \<noteq> PosInf)"
| "js_lt NegInf b = (b \<noteq> NegInf)"
| "js_lt a b = False"

fun js_le :: "jsnum \<Rightarrow> jsnum \<Rightarrow> bool" where
  "js_le NaN b = False"
| "js_le a NaN = False"
| "js_le (Num a) (Num b) = (a \<le> b)"
| "js_le a PosInf = True"
| "js_le NegInf b = True"
| "js_le a b = False"

definition js_gt :: "jsnum \<Rightarrow> jsnum \<Rightarrow> bool" where
  "js_gt a b = js_lt b a"

definition js_ge :: "jsnum \<Rightarrow> jsnum \<Rightarrow> bool" where
  "js_ge a b = js_le b a"

text \<open>Truthiness of a number: \<^verbatim>\<open>0\<close> and \<^verbatim>\<open>NaN\<close> are falsy.\<close>

fun js_truthy :: "jsnum \<Rightarrow> bool" where
  "js_truthy (Num r) = (r \<noteq> 0)"
| "js_truthy NaN = False"
| "js_truthy a = True"

text \<open>\<^verbatim>\<open>a || b\<close> on a number \<^verbatim>\<open>a\<close>.\<close>

definition js_or :: "jsnum \<Rightarrow> jsnum \<Rightarrow> jsnum" where
  "js_or a b = (if js_truthy a then a else b)"

text \<open>\<^verbatim>\<open>a || b\<close> where \<^verbatim>\<open>a\<close> may be \<^verbatim>\<open>undefined\<close> (an absent field or key), which is falsy.\<close>

definition js_or_undef :: "jsnum option \<Rightarrow> jsnum \<Rightarrow> jsnum" where
  "js_or_undef a b = (case a of None \<Rightarrow> b | Some v \<Rightarrow> js_or v b)"

text \<open>\<^verbatim>\<open>Math.max(a, b)\<close> and \<^verbatim>\<open>Math.min(a, b)\<close>: NaN if either argument is NaN.\<close>

definition Math_max :: "jsnum \<Rightarrow> jsnum \<Rightarrow> jsnum" where
  "Math_max a b = (if a = NaN \<or> b = NaN then NaN else if js_lt a b then b else a)"

definition Math_min :: "jsnum \<Rightarrow> jsnum \<Rightarrow> jsnum" where
  "Math_min a b = (if a = NaN \<or> b = NaN then NaN else if js_lt b a then b else a)"

text \<open>\<^verbatim>\<open>Math.abs(a)\<close>\<close>

fun Math_abs :: "jsnum \<Rightarrow> jsnum" where
  "Math_abs (Num r) = Num \<bar>r\<bar>"
| "Math_abs PosInf = PosInf"
| "Math_abs NegInf = PosInf"
| "Math_abs NaN = NaN"

text \<open>\<^verbatim>\<open>Math.round(a)\<close>: the nearest integer, a half rounding up.\<close>

fun Math_round :: "jsnum \<Rightarrow> jsnum" where
  "Math_round (Num r) = Num (of_int \<lfloor>r + 1 / 2\<rfloor>)"
| "Math_round a = a"

section \<open>The data model\<close>

text \<open>
  \<^verbatim>\<open>Partial<FinancialMetrics>\<close> and \<^verbatim>\<open>Partial<CalculatedRatios>\<close>: every field is a number or
  absent (\<^verbatim>\<open>undefined\<close>, here \<open>None\<close>).
\<close>

record FinancialMetrics =
  assets :: "jsnum option"
  currentAssets :: "jsnum option"
  inventory :: "jsnum option"
  liabilities :: "jsnum option"
  currentLiabilities :: "jsnum option"
  equity :: "jsnum option"
  revenue :: "jsnum option"
  netIncome :: "jsnum option"
  operatingIncome :: "jsnum option"
  cogs :: "jsnum option"
  operatingExpenses :: "jsnum option"
  interestExpense :: "jsnum option"
  taxExpense :: "jsnum option"
  cashFlow :: "jsnum option"
  accountsReceivable :: "jsnum option"
  accountsPayable :: "jsnum option"
  debt :: "jsnum option"
  shortTermDebt :: "jsnum option"
  longTermDebt :: "jsnum option"

record CalculatedRatios =
  currentRatio :: "jsnum option"
  quickRatio :: "jsnum option"
  cashRatio :: "jsnum option"
  workingCapital :: "jsnum option"
  profitMargin :: "jsnum option"
  operatingMargin :: "jsnum option"
  returnOnAssets :: "jsnum option"
  returnOnEquity :: "jsnum option"
  assetTurnover :: "jsnum option"
  debtToEquityRatio :: "jsnum option"
  debtToAssetsRatio :: "jsnum option"
  equityRatio :: "jsnum option"
  debtServiceCoverageRatio :: "jsnum option"
  receivablesTurnover :: "jsnum option"
  payablesTurnover :: "jsnum option"
  inventoryTurnover :: "jsnum option"
  daysInventoryOutstanding :: "jsnum option"
  daysReceivableOutstanding :: "jsnum option"
  daysPayableOutstanding :: "jsnum option"
  cashConversionCycle :: "jsnum option"

text \<open>The object literal \<^verbatim>\<open>{}\<close> at each of the two types.\<close>

definition no_metrics :: FinancialMetrics where
  "no_metrics = \<lparr>assets = None, currentAssets = None, inventory = None, liabilities = None,
     currentLiabilities = None, equity = None, revenue = None, netIncome = None,
     operatingIncome = None, cogs = None, operatingExpenses = None, interestExpense = None,
     taxExpense = None, cashFlow = None, accountsReceivable = None, accountsPayable = None,
     debt = None, shortTermDebt = None, longTermDebt = None\<rparr>"

definition no_ratios :: CalculatedRatios where
  "no_ratios = \<lparr>currentRatio = None, quickRatio = None, cashRatio = None,
     workingCapital = None, profitMargin = None, operatingMargin = None,
     returnOnAssets = None, returnOnEquity = None, assetTurnover = None,
     debtToEquityRatio = None, debtToAssetsRatio = None, equityRatio = None,
     debtServiceCoverageRatio = None, receivablesTurnover = None, payablesTurnover = None,
     inventoryTurnover = None, daysInventoryOutstanding = None,
     daysReceivableOutstanding = None, daysPayableOutstanding = None,
     cashConversionCycle = None\<rparr>"

section \<open>RatioCalculator\<close>

text \<open>
  \<^verbatim>\<open>calculateFinancialRatios\<close> fills the object \<^verbatim>\<open>ratios\<close> by a sequence of guarded
  assignments. The object is threaded through as a record; the sequence is cut at the
  source's own comment headings into six parts, each taking the object built so far.
  A guard \<^verbatim>\<open>metrics.f !== undefined\<close> is \<open>f metrics \<noteq> None\<close>, and under it the field is
  read with \<open>the\<close>.
\<close>

text \<open>\<^verbatim>\<open>// Liquidity Ratios\<close> (lines 73 to 85)\<close>

definition liquidity_ratios :: "FinancialMetrics \<Rightarrow> CalculatedRatios \<Rightarrow> CalculatedRatios" where
  "liquidity_ratios metrics ratios =
    (let ratios =
       (if currentAssets metrics \<noteq> None \<and> currentLiabilities metrics \<noteq> None
        then ratios\<lparr>currentRatio := Some (js_div (the (currentAssets metrics))
                       (js_or (the (currentLiabilities metrics)) (Num 1)))\<rparr>
        else ratios);
      ratios =
       (if currentAssets metrics \<noteq> None \<and> inventory metrics \<noteq> None
           \<and> currentLiabilities metrics \<noteq> None
        then (let quickAssets = js_sub (the (currentAssets metrics))
                                  (js_or (the (inventory metrics)) (Num 0))
              in ratios\<lparr>quickRatio := Some (js_div quickAssets
                          (js_or (the (currentLiabilities metrics)) (Num 1)))\<rparr>)
        else ratios);
      ratios =
       (if currentAssets metrics \<noteq> None \<and> currentLiabilities metrics \<noteq> None
        then ratios\<lparr>workingCapital := Some (js_sub (the (currentAssets metrics))
                       (the (currentLiabilities metrics)))\<rparr>
        else ratios)
     in ratios)"

text \<open>\<^verbatim>\<open>// Profitability Ratios\<close> (lines 87 to 106)\<close>

definition profitability_ratios :: "FinancialMetrics \<Rightarrow> CalculatedRatios \<Rightarrow> CalculatedRatios" where
  "profitability_ratios metrics ratios =
    (let ratios =
       (if netIncome metrics \<noteq> None \<and> revenue metrics \<noteq> None
        then ratios\<lparr>profitMargin := Some (js_mul (js_div (the (netIncome metrics))
                       (js_or (the (revenue metrics)) (Num 1))) (Num 100))\<rparr>
        else ratios);
      ratios =
       (if operatingIncome metrics \<noteq> None \<and> revenue metrics \<noteq> None
        then ratios\<lparr>operatingMargin := Some (js_mul (js_div (the (operatingIncome metrics))
                       (js_or (the (revenue metrics)) (Num 1))) (Num 100))\<rparr>
        else ratios);
      ratios =
       (if netIncome metrics \<noteq> None \<and> assets metrics \<noteq> None
        then ratios\<lparr>returnOnAssets := Some (js_mul (js_div (the (netIncome metrics))
                       (js_or (the (assets metrics)) (Num 1))) (Num 100))\<rparr>
        else ratios);
      ratios =
       (if netIncome metrics \<noteq> None \<and> equity metrics \<noteq> None
        then ratios\<lparr>returnOnEquity := Some (js_mul (js_div (the (netIncome metrics))
                       (js_or (the (equity metrics)) (Num 1))) (Num 100))\<rparr>
        else ratios);
      ratios =
       (if revenue metrics \<noteq> None \<and> assets metrics \<noteq> None
        then ratios\<lparr>assetTurnover := Some (js_div (the (revenue metrics))
                       (js_or (the (assets metrics)) (Num 1)))\<rparr>
        else ratios)
     in ratios)"

text \<open>\<^verbatim>\<open>// Leverage Ratios\<close> (lines 108 to 124)\<close>

definition leverage_ratios :: "FinancialMetrics \<Rightarrow> CalculatedRatios \<Rightarrow> CalculatedRatios" where
  "leverage_ratios metrics ratios =
    (let ratios =
       (if debt metrics \<noteq> None \<and> equity metrics \<noteq> None
        then ratios\<lparr>debtToEquityRatio := Some (js_div (the (debt metrics))
                       (js_or (the (equity metrics)) (Num 1)))\<rparr>
        else ratios);
      ratios =
       (if debt metrics \<noteq> None \<and> assets metrics \<noteq> None
        then ratios\<lparr>debtToAssetsRatio := Some (js_div (the (debt metrics))
                       (js_or (the (assets metrics)) (Num 1)))\<rparr>
        else ratios);
      ratios =
       (if equity metrics \<noteq> None \<and> assets metrics \<noteq> None
        then ratios\<lparr>equityRatio := Some (js_mul (js_div (the (equity metrics))
                       (js_or (the (assets metrics)) (Num 1))) (Num 100))\<rparr>
        else ratios);
      ratios =
       (if operatingIncome metrics \<noteq> None \<and> shortTermDebt metrics \<noteq> None
           \<and> longTermDebt metrics \<noteq> None
        then (let totalDebtService =
                    js_add (js_add (js_or (the (shortTermDebt metrics)) (Num 0))
                                   (js_or (the (longTermDebt metrics)) (Num 0)))
                           (js_or_undef (interestExpense metrics) (Num 0))
              in ratios\<lparr>debtServiceCoverageRatio :=
                          Some (js_div (the (operatingIncome metrics))
                                  (js_or totalDebtService (Num 1)))\<rparr>)
        else ratios)
     in ratios)"

text \<open>\<^verbatim>\<open>// Efficiency Ratios\<close> (lines 126 to 137)\<close>

definition efficiency_ratios :: "FinancialMetrics \<Rightarrow> CalculatedRatios \<Rightarrow> CalculatedRatios" where
  "efficiency_ratios metrics ratios =
    (let ratios =
       (if revenue metrics \<noteq> None \<and> accountsReceivable metrics \<noteq> None
        then ratios\<lparr>receivablesTurnover := Some (js_div (the (revenue metrics))
                       (js_or (the (accountsReceivable metrics)) (Num 1)))\<rparr>
        else ratios);
      ratios =
       (if cogs metrics \<noteq> None \<and> inventory metrics \<noteq> None
        then ratios\<lparr>inventoryTurnover := Some (js_div (the (cogs metrics))
                       (js_or (the (inventory metrics)) (Num 1)))\<rparr>
        else ratios);
      ratios =
       (if cogs metrics \<noteq> None \<and> accountsPayable metrics \<noteq> None
        then ratios\<lparr>payablesTurnover := Some (js_div (the (cogs metrics))
                       (js_or (the (accountsPayable metrics)) (Num 1)))\<rparr>
        else ratios)
     in ratios)"

text \<open>\<^verbatim>\<open>// Days calculations\<close> (lines 139 to 150): these read the object built so far.\<close>

definition days_calculations :: "CalculatedRatios \<Rightarrow> CalculatedRatios" where
  "days_calculations ratios =
    (let ratios =
       (if inventoryTurnover ratios \<noteq> None
        then ratios\<lparr>daysInventoryOutstanding := Some (js_div (Num 365)
                       (js_or (the (inventoryTurnover ratios)) (Num 1)))\<rparr>
        else ratios);
      ratios =
       (if receivablesTurnover ratios \<noteq> None
        then ratios\<lparr>daysReceivableOutstanding := Some (js_div (Num 365)
                       (js_or (the (receivablesTurnover ratios)) (Num 1)))\<rparr>
        else ratios);
      ratios =
       (if payablesTurnover ratios \<noteq> None
        then ratios\<lparr>daysPayableOutstanding := Some (js_div (Num 365)
                       (js_or (the (payablesTurnover ratios)) (Num 1)))\<rparr>
        else ratios)
     in ratios)"

text \<open>\<^verbatim>\<open>// Cash Conversion Cycle\<close> (lines 152 to 160)\<close>

definition cash_conversion :: "CalculatedRatios \<Rightarrow> CalculatedRatios" where
  "cash_conversion ratios =
    (if daysInventoryOutstanding ratios \<noteq> None
        \<and> daysReceivableOutstanding ratios \<noteq> None
        \<and> daysPayableOutstanding ratios \<noteq> None
     then ratios\<lparr>cashConversionCycle :=
            Some (js_sub (js_add (js_or (the (daysInventoryOutstanding ratios)) (Num 0))
                                 (js_or (the (daysReceivableOutstanding ratios)) (Num 0)))
                         (js_or (the (daysPayableOutstanding ratios)) (Num 0)))\<rparr>
     else ratios)"

text \<open>The whole function: \<^verbatim>\<open>const ratios = {}\<close>, the six parts in order, \<^verbatim>\<open>return ratios\<close>.\<close>

definition calculateFinancialRatios :: "FinancialMetrics \<Rightarrow> CalculatedRatios" where
  "calculateFinancialRatios metrics =
    (let ratios = no_ratios;
         ratios = liquidity_ratios metrics ratios;
         ratios = profitability_ratios metrics ratios;
         ratios = leverage_ratios metrics ratios;
         ratios = efficiency_ratios metrics ratios;
         ratios = days_calculations ratios;
         ratios = cash_conversion ratios
     in ratios)"

section \<open>CreditScorer\<close>

record CreditScoreFactors =
  liquidityScore :: jsnum
  profitabilityScore :: jsnum
  leverageScore :: jsnum
  efficiencyScore :: jsnum
  growthScore :: jsnum
  paymentHistoryScore :: jsnum

text \<open>
  \<^verbatim>\<open>calculateCreditScore\<close> updates the object \<^verbatim>\<open>factors\<close> in four commented blocks, then
  computes the weighted score and the tier. Each block is a function on \<^verbatim>\<open>factors\<close>.
\<close>

text \<open>\<^verbatim>\<open>// Liquidity Score (20% weight)\<close> (lines 184 to 196)\<close>

definition liquidity_score :: "CalculatedRatios \<Rightarrow> CreditScoreFactors \<Rightarrow> CreditScoreFactors" where
  "liquidity_score ratios factors =
    (if currentRatio ratios \<noteq> None
     then (if js_ge (the (currentRatio ratios)) (Num 1.5)
              \<and> js_le (the (currentRatio ratios)) (Num 3.0)
           then factors\<lparr>liquidityScore := Num 100\<rparr>
           else if js_ge (the (currentRatio ratios)) (Num 1.0)
              \<and> js_lt (the (currentRatio ratios)) (Num 1.5)
           then factors\<lparr>liquidityScore := Num 75\<rparr>
           else if js_ge (the (currentRatio ratios)) (Num 0.5)
              \<and> js_lt (the (currentRatio ratios)) (Num 1.0)
           then factors\<lparr>liquidityScore := Num 40\<rparr>
           else factors\<lparr>liquidityScore :=
                  Math_max (Num 0)
                    (js_sub (Num 100)
                       (js_mul (Math_abs (js_sub (the (currentRatio ratios)) (Num 1.5)))
                               (Num 20)))\<rparr>)
     else factors)"

text \<open>\<^verbatim>\<open>// Profitability Score (25% weight)\<close> (lines 198 to 215)\<close>

definition profitability_score :: "CalculatedRatios \<Rightarrow> CreditScoreFactors \<Rightarrow> CreditScoreFactors" where
  "profitability_score ratios factors =
    (let factors =
       (if profitMargin ratios \<noteq> None
        then (if js_ge (the (profitMargin ratios)) (Num 10)
              then factors\<lparr>profitabilityScore := Num 100\<rparr>
              else if js_ge (the (profitMargin ratios)) (Num 5)
              then factors\<lparr>profitabilityScore := Num 80\<rparr>
              else if js_ge (the (profitMargin ratios)) (Num 0)
              then factors\<lparr>profitabilityScore := Num 60\<rparr>
              else factors\<lparr>profitabilityScore :=
                     Math_max (Num 0)
                       (js_add (Num 30) (js_mul (the (profitMargin ratios)) (Num 3)))\<rparr>)
        else factors);
      factors =
       (if returnOnEquity ratios \<noteq> None
        then (let roeScore = Math_min (Num 100)
                    (js_mul (js_div (the (returnOnEquity ratios)) (Num 15)) (Num 100))
              in factors\<lparr>profitabilityScore :=
                   js_div (js_add (profitabilityScore factors) roeScore) (Num 2)\<rparr>)
        else factors)
     in factors)"

text \<open>\<^verbatim>\<open>// Leverage Score (25% weight)\<close> (lines 217 to 234)\<close>

definition leverage_score :: "CalculatedRatios \<Rightarrow> CreditScoreFactors \<Rightarrow> CreditScoreFactors" where
  "leverage_score ratios factors =
    (let factors =
       (if debtToEquityRatio ratios \<noteq> None
        then (if js_le (the (debtToEquityRatio ratios)) (Num 0.5)
              then factors\<lparr>leverageScore := Num 100\<rparr>
              else if js_le (the (debtToEquityRatio ratios)) (Num 1.0)
              then factors\<lparr>leverageScore := Num 80\<rparr>
              else if js_le (the (debtToEquityRatio ratios)) (Num 2.0)
              then factors\<lparr>leverageScore := Num 50\<rparr>
              else factors\<lparr>leverageScore :=
                     Math_max (Num 0)
                       (js_sub (Num 100)
                          (js_mul (the (debtToEquityRatio ratios)) (Num 20)))\<rparr>)
        else factors);
      factors =
       (if debtServiceCoverageRatio ratios \<noteq> None
        then (let dscScore = Math_min (Num 100)
                    (js_mul (js_div (the (debtServiceCoverageRatio ratios)) (Num 2))
                            (Num 100))
              in factors\<lparr>leverageScore :=
                   js_div (js_add (leverageScore factors) dscScore) (Num 2)\<rparr>)
        else factors)
     in factors)"

text \<open>\<^verbatim>\<open>// Efficiency Score (15% weight)\<close> (lines 236 to 253)\<close>

definition efficiency_score :: "CalculatedRatios \<Rightarrow> CreditScoreFactors \<Rightarrow> CreditScoreFactors" where
  "efficiency_score ratios factors =
    (let factors =
       (if cashConversionCycle ratios \<noteq> None
        then (if js_le (the (cashConversionCycle ratios)) (Num 30)
              then factors\<lparr>efficiencyScore := Num 100\<rparr>
              else if js_le (the (cashConversionCycle ratios)) (Num 60)
              then factors\<lparr>efficiencyScore := Num 80\<rparr>
              else if js_le (the (cashConversionCycle ratios)) (Num 90)
              then factors\<lparr>efficiencyScore := Num 60\<rparr>
              else factors\<lparr>efficiencyScore :=
                     Math_max (Num 0)
                       (js_sub (Num 100)
                          (js_div (js_sub (the (cashConversionCycle ratios)) (Num 30))
                                  (Num 2)))\<rparr>)
        else factors);
      factors =
       (if assetTurnover ratios \<noteq> None
        then (let atorScore = Math_min (Num 100)
                    (js_mul (the (assetTurnover ratios)) (Num 50))
              in factors\<lparr>efficiencyScore :=
                   js_div (js_add (efficiencyScore factors) atorScore) (Num 2)\<rparr>)
        else factors)
     in factors)"

text \<open>The object \<^verbatim>\<open>{ score, tier, factors }\<close> that \<^verbatim>\<open>calculateCreditScore\<close> returns.\<close>

record CreditScoreResult =
  score :: jsnum
  tier :: string
  factors :: CreditScoreFactors

text \<open>
  The whole function. The two optional parameters \<^verbatim>\<open>paymentHistoryScore: number = 50\<close>
  and \<^verbatim>\<open>growthScore: number = 50\<close> are \<open>None\<close> when the caller leaves them out. The
  tier is read off the local \<^verbatim>\<open>score\<close>; the returned score is
  \<^verbatim>\<open>Math.round(score * 100) / 100\<close>. The parameter \<^verbatim>\<open>metrics\<close> is not read.
\<close>

definition calculateCreditScore ::
  "CalculatedRatios \<Rightarrow> FinancialMetrics \<Rightarrow> jsnum option \<Rightarrow> jsnum option \<Rightarrow> CreditScoreResult" where
  "calculateCreditScore ratios metrics paymentHistoryScore_arg growthScore_arg =
    (let paymentHistoryScore_p =
           (case paymentHistoryScore_arg of None \<Rightarrow> Num 50 | Some v \<Rightarrow> v);
         growthScore_p = (case growthScore_arg of None \<Rightarrow> Num 50 | Some v \<Rightarrow> v);
         factors' = \<lparr>liquidityScore = Num 0, profitabilityScore = Num 0,
                    leverageScore = Num 0, efficiencyScore = Num 0,
                    growthScore = growthScore_p,
                    paymentHistoryScore = paymentHistoryScore_p\<rparr>;
         factors' = liquidity_score ratios factors';
         factors' = profitability_score ratios factors';
         factors' = leverage_score ratios factors';
         factors' = efficiency_score ratios factors';
         score' =
           js_add (js_add (js_add (js_add (js_add
             (js_mul (liquidityScore factors') (Num 0.2))
             (js_mul (profitabilityScore factors') (Num 0.25)))
             (js_mul (leverageScore factors') (Num 0.25)))
             (js_mul (efficiencyScore factors') (Num 0.15)))
             (js_mul (growthScore factors') (Num 0.1)))
             (js_mul (paymentHistoryScore factors') (Num 0.05));
         tier' =
           (if js_ge score' (Num 80) then ''excellent''
            else if js_ge score' (Num 65) then ''good''
            else if js_ge score' (Num 50) then ''fair''
            else if js_ge score' (Num 35) then ''poor''
            else ''very_poor'')
     in \<lparr>score = js_div (Math_round (js_mul score' (Num 100))) (Num 100),
         tier = tier', factors = factors'\<rparr>)"

section \<open>RiskAssessor\<close>

text \<open>
  \<^verbatim>\<open>assessFinancialRisks\<close> keeps two locals, the list \<^verbatim>\<open>riskFactors\<close> and the number
  \<^verbatim>\<open>riskScore\<close>, and runs eight guarded statements, each a \<^verbatim>\<open>push\<close> and a \<^verbatim>\<open>+=\<close>. The
  pair of locals is threaded through the four commented blocks.
\<close>

text \<open>\<^verbatim>\<open>// Liquidity Risk\<close> (lines 293 to 302)\<close>

fun liquidity_risk :: "CalculatedRatios \<Rightarrow> string list \<times> jsnum \<Rightarrow> string list \<times> jsnum" where
  "liquidity_risk ratios (riskFactors, riskScore) =
    (let (riskFactors, riskScore) =
       (if currentRatio ratios \<noteq> None \<and> js_lt (the (currentRatio ratios)) (Num 1.0)
        then (riskFactors @ [''Low liquidity: Current ratio below 1.0''],
              js_add riskScore (Num 20))
        else (riskFactors, riskScore));
      (riskFactors, riskScore) =
       (if quickRatio ratios \<noteq> None \<and> js_lt (the (quickRatio ratios)) (Num 0.5)
        then (riskFactors @ [''Critical liquidity: Quick ratio below 0.5''],
              js_add riskScore (Num 15))
        else (riskFactors, riskScore))
     in (riskFactors, riskScore))"

text \<open>\<^verbatim>\<open>// Profitability Risk\<close> (lines 304 to 313)\<close>

fun profitability_risk :: "CalculatedRatios \<Rightarrow> string list \<times> jsnum \<Rightarrow> string list \<times> jsnum" where
  "profitability_risk ratios (riskFactors, riskScore) =
    (let (riskFactors, riskScore) =
       (if profitMargin ratios \<noteq> None \<and> js_lt (the (profitMargin ratios)) (Num 0)
        then (riskFactors @ [''Negative profit margin: Business operating at a loss''],
              js_add riskScore (Num 25))
        else (riskFactors, riskScore));
      (riskFactors, riskScore) =
       (if returnOnEquity ratios \<noteq> None \<and> js_lt (the (returnOnEquity ratios)) (Num 0)
        then (riskFactors @ [''Negative ROE: Shareholders' equity is decreasing''],
              js_add riskScore (Num 20))
        else (riskFactors, riskScore))
     in (riskFactors, riskScore))"

text \<open>\<^verbatim>\<open>// Leverage Risk\<close> (lines 315 to 324)\<close>

fun leverage_risk :: "CalculatedRatios \<Rightarrow> string list \<times> jsnum \<Rightarrow> string list \<times> jsnum" where
  "leverage_risk ratios (riskFactors, riskScore) =
    (let (riskFactors, riskScore) =
       (if debtToEquityRatio ratios \<noteq> None
           \<and> js_gt (the (debtToEquityRatio ratios)) (Num 2.0)
        then (riskFactors @ [''High leverage: Debt-to-equity ratio exceeds 2.0''],
              js_add riskScore (Num 25))
        else (riskFactors, riskScore));
      (riskFactors, riskScore) =
       (if debtServiceCoverageRatio ratios \<noteq> None
           \<and> js_lt (the (debtServiceCoverageRatio ratios)) (Num 1.0)
        then (riskFactors @
                [''Debt service risk: Cannot cover debt obligations from operating income''],
              js_add riskScore (Num 30))
        else (riskFactors, riskScore))
     in (riskFactors, riskScore))"

text \<open>\<^verbatim>\<open>// Operational Risk\<close> (lines 326 to 335)\<close>

fun operational_risk :: "CalculatedRatios \<Rightarrow> string list \<times> jsnum \<Rightarrow> string list \<times> jsnum" where
  "operational_risk ratios (riskFactors, riskScore) =
    (let (riskFactors, riskScore) =
       (if cashConversionCycle ratios \<noteq> None
           \<and> js_gt (the (cashConversionCycle ratios)) (Num 120)
        then (riskFactors @ [''Working capital risk: Long cash conversion cycle''],
              js_add riskScore (Num 15))
        else (riskFactors, riskScore));
      (riskFactors, riskScore) =
       (if inventoryTurnover ratios \<noteq> None
           \<and> js_lt (the (inventoryTurnover ratios)) (Num 1)
        then (riskFactors @ [''Inventory risk: Slow inventory turnover''],
              js_add riskScore (Num 10))
        else (riskFactors, riskScore))
     in (riskFactors, riskScore))"

text \<open>The object \<^verbatim>\<open>{ riskTier, riskFactors, riskScore }\<close> that the function returns.\<close>

record RiskAssessment =
  riskTier :: string
  riskFactors :: "string list"
  riskScore :: jsnum

text \<open>
  The whole function: the locals start as \<^verbatim>\<open>[]\<close> and \<^verbatim>\<open>0\<close>, the tier is read off the
  local \<^verbatim>\<open>riskScore\<close>, and the returned score is \<^verbatim>\<open>Math.min(100, riskScore)\<close>. The
  parameter \<^verbatim>\<open>metrics\<close> is not read.
\<close>

definition assessFinancialRisks :: "CalculatedRatios \<Rightarrow> FinancialMetrics \<Rightarrow> RiskAssessment" where
  "assessFinancialRisks ratios metrics =
    (let locals = ([], Num 0);
         locals = liquidity_risk ratios locals;
         locals = profitability_risk ratios locals;
         locals = leverage_risk ratios locals;
         locals = operational_risk ratios locals;
         riskFactors' = fst locals;
         riskScore' = snd locals;
         riskTier' =
           (if js_ge riskScore' (Num 80) then ''very_high''
            else if js_ge riskScore' (Num 60) then ''high''
            else if js_ge riskScore' (Num 40) then ''medium''
            else if js_ge riskScore' (Num 20) then ''low''
            else ''very_low'')
     in \<lparr>riskTier = riskTier', riskFactors = riskFactors',
         riskScore = Math_min (Num 100) riskScore'\<rparr>)"

section \<open>CostOptimizer\<close>

text \<open>The union type \<^verbatim>\<open>"high" | "medium" | "low"\<close>.\<close>

datatype Priority = high | medium | low

text \<open>An element of the returned array.\<close>

record CostRecommendation =
  category :: string
  currentValue :: jsnum
  benchmarkValue :: jsnum
  savingsPotential :: jsnum
  recommendation :: string
  priority :: Priority

text \<open>
  \<^verbatim>\<open>generateCostOptimizationRecommendations\<close> pushes onto the array \<^verbatim>\<open>recommendations\<close>
  in three commented blocks, each a function on the array here. The benchmarks are a
  \<^verbatim>\<open>Record<string, number>\<close>, a map from keys to numbers; a key that is not there reads
  as \<^verbatim>\<open>undefined\<close>. The built-in \<^verbatim>\<open>Number.prototype.toFixed\<close>, which prints a number
  with a given count of decimals, is a parameter: \<open>toFixed x n\<close> stands for
  \<^verbatim>\<open>x.toFixed(n)\<close>. Neither division by \<^verbatim>\<open>metrics.revenue\<close> has a guard.
\<close>

text \<open>\<^verbatim>\<open>// Operating Expense Optimization\<close> (lines 380 to 396)\<close>

definition operating_expense_optimization ::
  "(jsnum \<Rightarrow> nat \<Rightarrow> string) \<Rightarrow> FinancialMetrics \<Rightarrow> (string \<rightharpoonup> jsnum)
     \<Rightarrow> CostRecommendation list \<Rightarrow> CostRecommendation list" where
  "operating_expense_optimization toFixed metrics benchmarks recommendations =
    (if operatingExpenses metrics \<noteq> None \<and> revenue metrics \<noteq> None
     then (let operatingExpenseRatio =
                 js_mul (js_div (the (operatingExpenses metrics)) (the (revenue metrics)))
                        (Num 100);
               benchmarkRatio = js_or_undef (benchmarks ''operatingExpenseRatio'') (Num 30)
           in if js_gt operatingExpenseRatio benchmarkRatio
              then (let savingsPotential' =
                          js_mul (the (revenue metrics))
                            (js_div (js_sub operatingExpenseRatio benchmarkRatio) (Num 100))
                    in recommendations @
                       [\<lparr>category = ''Operating Expenses'',
                         currentValue = operatingExpenseRatio,
                         benchmarkValue = benchmarkRatio,
                         savingsPotential = savingsPotential',
                         recommendation =
                           ''Reduce operating expenses by '' @
                           toFixed (js_mul (js_div (js_sub operatingExpenseRatio benchmarkRatio)
                                                   benchmarkRatio) (Num 100)) 1 @
                           ''% to match industry benchmark. Focus on automation and process efficiency.'',
                         priority =
                           (if js_gt operatingExpenseRatio (js_mul benchmarkRatio (Num 1.5))
                            then high else medium)\<rparr>])
              else recommendations)
     else recommendations)"

text \<open>\<^verbatim>\<open>// COGS Optimization\<close> (lines 398 to 414)\<close>

definition cogs_optimization ::
  "(jsnum \<Rightarrow> nat \<Rightarrow> string) \<Rightarrow> FinancialMetrics \<Rightarrow> (string \<rightharpoonup> jsnum)
     \<Rightarrow> CostRecommendation list \<Rightarrow> CostRecommendation list" where
  "cogs_optimization toFixed metrics benchmarks recommendations =
    (if cogs metrics \<noteq> None \<and> revenue metrics \<noteq> None
     then (let cogsRatio =
                 js_mul (js_div (the (cogs metrics)) (the (revenue metrics))) (Num 100);
               benchmarkRatio = js_or_undef (benchmarks ''cogsRatio'') (Num 60)
           in if js_gt cogsRatio benchmarkRatio
              then (let savingsPotential' =
                          js_mul (the (revenue metrics))
                            (js_div (js_sub cogsRatio benchmarkRatio) (Num 100))
                    in recommendations @
                       [\<lparr>category = ''Cost of Goods Sold'',
                         currentValue = cogsRatio,
                         benchmarkValue = benchmarkRatio,
                         savingsPotential = savingsPotential',
                         recommendation =
                           ''Optimize COGS by '' @
                           toFixed (js_mul (js_div (js_sub cogsRatio benchmarkRatio)
                                                   benchmarkRatio) (Num 100)) 1 @
                           ''%. Consider supplier negotiations, bulk purchasing, or production efficiency improvements.'',
                         priority =
                           (if js_gt cogsRatio (js_mul benchmarkRatio (Num 1.3))
                            then high else medium)\<rparr>])
              else recommendations)
     else recommendations)"

text \<open>\<^verbatim>\<open>// Working Capital Optimization\<close> (lines 416 to 431)\<close>

definition working_capital_optimization ::
  "(jsnum \<Rightarrow> nat \<Rightarrow> string) \<Rightarrow> CalculatedRatios \<Rightarrow> (string \<rightharpoonup> jsnum)
     \<Rightarrow> CostRecommendation list \<Rightarrow> CostRecommendation list" where
  "working_capital_optimization toFixed ratios benchmarks recommendations =
    (if daysReceivableOutstanding ratios \<noteq> None
     then (let benchmarkDRO =
                 js_or_undef (benchmarks ''daysReceivableOutstanding'') (Num 45)
           in if js_gt (the (daysReceivableOutstanding ratios)) benchmarkDRO
              then (let improvement =
                          js_sub (the (daysReceivableOutstanding ratios)) benchmarkDRO
                    in recommendations @
                       [\<lparr>category = ''Accounts Receivable'',
                         currentValue = the (daysReceivableOutstanding ratios),
                         benchmarkValue = benchmarkDRO,
                         savingsPotential = Num 0,
                         recommendation =
                           ''Improve collection efficiency. Current DRO is '' @
                           toFixed improvement 0 @
                           '' days above benchmark. Implement stricter credit policies and faster invoicing.'',
                         priority =
                           (if js_gt improvement (Num 30) then high else medium)\<rparr>])
              else recommendations)
     else recommendations)"

text \<open>The whole function: the array starts empty and goes through the three blocks.\<close>

definition generateCostOptimizationRecommendations ::
  "(jsnum \<Rightarrow> nat \<Rightarrow> string) \<Rightarrow> CalculatedRatios \<Rightarrow> FinancialMetrics
     \<Rightarrow> (string \<rightharpoonup> jsnum) \<Rightarrow> CostRecommendation list" where
  "generateCostOptimizationRecommendations toFixed ratios metrics benchmarks =
    (let recommendations = [];
         recommendations =
           operating_expense_optimization toFixed metrics benchmarks recommendations;
         recommendations = cogs_optimization toFixed metrics benchmarks recommendations;
         recommendations =
           working_capital_optimization toFixed ratios benchmarks recommendations
     in recommendations)"

section \<open>TrendAnalyzer\<close>

text \<open>
  \<^verbatim>\<open>calculateTrendAnalysis\<close> returns a \<^verbatim>\<open>Record<string, number>\<close>, a map. The division by
  the previous value has no guard.
\<close>

definition calculateTrendAnalysis ::
  "FinancialMetrics \<Rightarrow> FinancialMetrics \<Rightarrow> (string \<rightharpoonup> jsnum)" where
  "calculateTrendAnalysis currentMetrics previousMetrics =
    (let trends = Map.empty;
      trends =
       (if revenue currentMetrics \<noteq> None \<and> revenue previousMetrics \<noteq> None
        then trends(''revenueGrowth'' \<mapsto>
               js_mul (js_div (js_sub (the (revenue currentMetrics))
                                      (the (revenue previousMetrics)))
                              (the (revenue previousMetrics))) (Num 100))
        else trends);
      trends =
       (if netIncome currentMetrics \<noteq> None \<and> netIncome previousMetrics \<noteq> None
        then trends(''profitGrowth'' \<mapsto>
               js_mul (js_div (js_sub (the (netIncome currentMetrics))
                                      (the (netIncome previousMetrics)))
                              (the (netIncome previousMetrics))) (Num 100))
        else trends);
      trends =
       (if assets currentMetrics \<noteq> None \<and> assets previousMetrics \<noteq> None
        then trends(''assetGrowth'' \<mapsto>
               js_mul (js_div (js_sub (the (assets currentMetrics))
                                      (the (assets previousMetrics)))
                              (the (assets previousMetrics))) (Num 100))
        else trends);
      trends =
       (if equity currentMetrics \<noteq> None \<and> equity previousMetrics \<noteq> None
        then trends(''equityGrowth'' \<mapsto>
               js_mul (js_div (js_sub (the (equity currentMetrics))
                                      (the (equity previousMetrics)))
                              (the (equity previousMetrics))) (Num 100))
        else trends)
     in trends)"

section \<open>The credit score as the specification describes it\<close>

text \<open>
  The final score of the specification: liquidity times 0.20 plus profitability times
  0.25 plus leverage times 0.25 plus efficiency times 0.15 plus growth times 0.10 plus
  payment history times 0.05.
\<close>

definition spec_weighted_score :: "CreditScoreFactors \<Rightarrow> jsnum" where
  "spec_weighted_score f =
     js_add (js_add (js_add (js_add (js_add
       (js_mul (liquidityScore f) (Num 0.20))
       (js_mul (profitabilityScore f) (Num 0.25)))
       (js_mul (leverageScore f) (Num 0.25)))
       (js_mul (efficiencyScore f) (Num 0.15)))
       (js_mul (growthScore f) (Num 0.10)))
       (js_mul (paymentHistoryScore f) (Num 0.05))"

text \<open>Rounding to two decimals, \<^verbatim>\<open>Math.round(x * 100) / 100\<close>.\<close>

definition spec_round2 :: "jsnum \<Rightarrow> jsnum" where
  "spec_round2 x = js_div (Math_round (js_mul x (Num 100))) (Num 100)"

text \<open>The tier ladder, evaluated top-down, first match wins.\<close>

definition spec_credit_tier :: "jsnum \<Rightarrow> string" where
  "spec_credit_tier s =
     (if js_ge s (Num 80) then ''excellent''
      else if js_ge s (Num 65) then ''good''
      else if js_ge s (Num 50) then ''fair''
      else if js_ge s (Num 35) then ''poor''
      else ''very_poor'')"

text \<open>A score between 0 and 100, both included.\<close>

definition in_0_100 :: "jsnum \<Rightarrow> bool" where
  "in_0_100 x = (js_ge x (Num 0) \<and> js_le x (Num 100))"

section \<open>The risk rules as the specification lists them\<close>

text \<open>
  The specification describes the risk assessment as a table of eight rules, each a
  condition on one ratio, a fixed message and a fixed number of points; a rule whose ratio
  is absent is skipped. The table is written down here from the specification's words, to
  be compared with \<open>assessFinancialRisks\<close> above.
\<close>

definition present_and :: "jsnum option \<Rightarrow> (jsnum \<Rightarrow> bool) \<Rightarrow> bool" where
  "present_and field cond = (case field of None \<Rightarrow> False | Some v \<Rightarrow> cond v)"

definition spec_risk_rules :: "CalculatedRatios \<Rightarrow> (bool \<times> string \<times> real) list" where
  "spec_risk_rules ratios =
    [(present_and (currentRatio ratios) (\<lambda>v. js_lt v (Num 1.0)),
        ''Low liquidity: Current ratio below 1.0'', 20),
     (present_and (quickRatio ratios) (\<lambda>v. js_lt v (Num 0.5)),
        ''Critical liquidity: Quick ratio below 0.5'', 15),
     (present_and (profitMargin ratios) (\<lambda>v. js_lt v (Num 0)),
        ''Negative profit margin: Business operating at a loss'', 25),
     (present_and (returnOnEquity ratios) (\<lambda>v. js_lt v (Num 0)),
        ''Negative ROE: Shareholders' equity is decreasing'', 20),
     (present_and (debtToEquityRatio ratios) (\<lambda>v. js_gt v (Num 2.0)),
        ''High leverage: Debt-to-equity ratio exceeds 2.0'', 25),
     (present_and (debtServiceCoverageRatio ratios) (\<lambda>v. js_lt v (Num 1.0)),
        ''Debt service risk: Cannot cover debt obligations from operating income'', 30),
     (present_and (cashConversionCycle ratios) (\<lambda>v. js_gt v (Num 120)),
        ''Working capital risk: Long cash conversion cycle'', 15),
     (present_and (inventoryTurnover ratios) (\<lambda>v. js_lt v (Num 1)),
        ''Inventory risk: Slow inventory turnover'', 10)]"

text \<open>The rules whose condition holds, in the order of the table.\<close>

definition spec_triggered :: "CalculatedRatios \<Rightarrow> (bool \<times> string \<times> real) list" where
  "spec_triggered ratios = filter fst (spec_risk_rules ratios)"

text \<open>The tier ladder, highest threshold first.\<close>

definition spec_risk_tier :: "jsnum \<Rightarrow> string" where
  "spec_risk_tier s =
     (if js_ge s (Num 80) then ''very_high''
      else if js_ge s (Num 60) then ''high''
      else if js_ge s (Num 40) then ''medium''
      else if js_ge s (Num 20) then ''low''
      else ''very_low'')"

section \<open>The benchmark in use\<close>

text \<open>
  The benchmark as the specification words it, \<^verbatim>\<open>benchmarks[key] ?? default\<close>: the default
  only when the key is missing, any supplied number as it is.
\<close>

definition spec_benchmark :: "(string \<rightharpoonup> jsnum) \<Rightarrow> string \<Rightarrow> jsnum \<Rightarrow> jsnum" where
  "spec_benchmark benchmarks k dflt = (case benchmarks k of None \<Rightarrow> dflt | Some v \<Rightarrow> v)"

text \<open>
  The benchmark as the code's \<^verbatim>\<open>benchmarks[key] || default\<close> selects it, by cases: the
  default when the key is missing and when the supplied number is \<^verbatim>\<open>0\<close> or NaN, any other
  supplied number as it is.
\<close>

definition benchmark_in_effect :: "(string \<rightharpoonup> jsnum) \<Rightarrow> string \<Rightarrow> jsnum \<Rightarrow> jsnum" where
  "benchmark_in_effect benchmarks k dflt =
     (case benchmarks k of None \<Rightarrow> dflt
      | Some v \<Rightarrow> if v = Num 0 \<or> v = NaN then dflt else v)"

text \<open>The first recommendation of a category in the returned array, if there is one.\<close>

definition for_category :: "string \<Rightarrow> CostRecommendation list \<Rightarrow> CostRecommendation option" where
  "for_category c recs = find (\<lambda>r. category r = c) recs"

section \<open>Auxiliary definitions for the proofs\<close>

text \<open>
  The object \<^verbatim>\<open>ratios\<close> as it stands when the days calculations begin: the first four
  parts of \<^verbatim>\<open>calculateFinancialRatios\<close> applied to \<^verbatim>\<open>{}\<close>.
\<close>

definition before_days :: "FinancialMetrics \<Rightarrow> CalculatedRatios" where
  "before_days m =
     efficiency_ratios m (leverage_ratios m (profitability_ratios m
       (liquidity_ratios m no_ratios)))"

text \<open>One rule applied to the two locals of \<^verbatim>\<open>assessFinancialRisks\<close>.\<close>

definition check :: "bool \<times> string \<times> real \<Rightarrow> string list \<times> jsnum \<Rightarrow> string list \<times> jsnum" where
  "check rule locals =
     (if fst rule
      then (fst locals @ [fst (snd rule)], js_add (snd locals) (Num (snd (snd rule))))
      else locals)"

section \<open>Concrete inputs\<close>

definition zero_liabilities_metrics :: FinancialMetrics where
  "zero_liabilities_metrics =
     no_metrics\<lparr>currentAssets := Some (Num 100000), currentLiabilities := Some (Num 0)\<rparr>"

definition efficiency_metrics :: FinancialMetrics where
  "efficiency_metrics =
     no_metrics\<lparr>revenue := Some (Num 1000000), cogs := Some (Num 600000),
       accountsReceivable := Some (Num 100000), inventory := Some (Num 50000),
       accountsPayable := Some (Num 75000)\<rparr>"

definition income_only_metrics :: FinancialMetrics where
  "income_only_metrics = no_metrics\<lparr>operatingIncome := Some (Num 100)\<rparr>"

definition debt_metrics :: FinancialMetrics where
  "debt_metrics = no_metrics\<lparr>operatingIncome := Some (Num 90000),
     shortTermDebt := Some (Num 10000), longTermDebt := Some (Num 30000),
     interestExpense := Some (Num 5000)\<rparr>"

definition zero_debt_metrics :: FinancialMetrics where
  "zero_debt_metrics = no_metrics\<lparr>operatingIncome := Some (Num 90000),
     shortTermDebt := Some (Num 0), longTermDebt := Some (Num 0)\<rparr>"

definition all_risks_ratios :: CalculatedRatios where
  "all_risks_ratios = no_ratios\<lparr>currentRatio := Some (Num 0.8), quickRatio := Some (Num 0.3),
     profitMargin := Some (Num (- 10)), returnOnEquity := Some (Num (- 15)),
     debtToEquityRatio := Some (Num 2.5), debtServiceCoverageRatio := Some (Num 0.5),
     cashConversionCycle := Some (Num 150), inventoryTurnover := Some (Num 0.5)\<rparr>"

definition three_risks_ratios :: CalculatedRatios where
  "three_risks_ratios = no_ratios\<lparr>currentRatio := Some (Num 0.8),
     profitMargin := Some (Num (- 5)), debtToEquityRatio := Some (Num 2.5)\<rparr>"

definition later_metrics :: FinancialMetrics where
  "later_metrics = no_metrics\<lparr>revenue := Some (Num 1200000), netIncome := Some (Num 60000),
     assets := Some (Num 550000), equity := Some (Num 300000)\<rparr>"

definition former_metrics :: FinancialMetrics where
  "former_metrics = no_metrics\<lparr>revenue := Some (Num 1000000), netIncome := Some (Num 50000),
     assets := Some (Num 500000), equity := Some (Num 250000)\<rparr>"

definition growing_metrics :: FinancialMetrics where
  "growing_metrics = no_metrics\<lparr>revenue := Some (Num 1200000), netIncome := Some (Num 60000)\<rparr>"

definition earlier_metrics :: FinancialMetrics where
  "earlier_metrics = no_metrics\<lparr>revenue := Some (Num 1000000), assets := Some (Num 500000)\<rparr>"

definition borderline_ratios :: CalculatedRatios where
  "borderline_ratios = no_ratios\<lparr>currentRatio := Some (Num 1.2),
     profitMargin := Some (Num 15), debtToEquityRatio := Some (Num 1.0),
     cashConversionCycle := Some (Num 30)\<rparr>"

definition average_ratios :: CalculatedRatios where
  "average_ratios = no_ratios\<lparr>currentRatio := Some (Num 1.2),
     profitMargin := Some (Num 5), debtToEquityRatio := Some (Num 1.0),
     returnOnEquity := Some (Num 8), cashConversionCycle := Some (Num 60),
     assetTurnover := Some (Num 0.8)\<rparr>"

definition loss_metrics :: FinancialMetrics where
  "loss_metrics = no_metrics\<lparr>netIncome := Some (Num (- 150000)), equity := Some (Num 100000)\<rparr>"

text \<open>
  The facts below hold for every \<open>toFixed\<close>. A concrete input needs one: this one prints
  every number as \<^verbatim>\<open>#\<close>. It only fills the recommendation texts, which none of the facts
  reads.
\<close>

definition toFixed_any :: "jsnum \<Rightarrow> nat \<Rightarrow> string" where
  "toFixed_any x n = ''#''"

definition no_benchmarks :: "string \<rightharpoonup> jsnum" where
  "no_benchmarks = Map.empty"

definition zero_benchmark :: "string \<rightharpoonup> jsnum" where
  "zero_benchmark = [''operatingExpenseRatio'' \<mapsto> Num 0]"

definition opex_benchmark_25 :: "string \<rightharpoonup> jsnum" where
  "opex_benchmark_25 = [''operatingExpenseRatio'' \<mapsto> Num 25]"

definition high_opex_metrics :: FinancialMetrics where
  "high_opex_metrics =
     no_metrics\<lparr>operatingExpenses := Some (Num 400000), revenue := Some (Num 1000000)\<rparr>"

definition high_costs_metrics :: FinancialMetrics where
  "high_costs_metrics =
     no_metrics\<lparr>operatingExpenses := Some (Num 400000), cogs := Some (Num 750000),
       revenue := Some (Num 1000000)\<rparr>"

definition negative_revenue_metrics :: FinancialMetrics where
  "negative_revenue_metrics =
     no_metrics\<lparr>operatingExpenses := Some (Num (- 500)), revenue := Some (Num (- 1000))\<rparr>"

definition zero_revenue_metrics :: FinancialMetrics where
  "zero_revenue_metrics =
     no_metrics\<lparr>operatingExpenses := Some (Num 100), revenue := Some (Num 0)\<rparr>"

section \<open>Facts about the JavaScript operations and the ratio calculation\<close>

lemma js_div_one [simp]: "js_div a (Num 1) = a"
  by (cases a) simp_all

lemma js_or_zero_left [simp]: "js_or (Num 0) b = b"
  by (simp add: js_or_def)

lemma days_or_zero:
  "js_or (js_div (Num 365) (js_or t (Num 1))) (Num 0) = js_div (Num 365) (js_or t (Num 1))"
  by (cases t) (simp_all add: js_or_def)

lemma liquidity_keeps:
  "cashRatio (liquidity_ratios m r) = cashRatio r"
  "debtServiceCoverageRatio (liquidity_ratios m r) = debtServiceCoverageRatio r"
  "inventoryTurnover (liquidity_ratios m r) = inventoryTurnover r"
  "receivablesTurnover (liquidity_ratios m r) = receivablesTurnover r"
  "payablesTurnover (liquidity_ratios m r) = payablesTurnover r"
  "daysInventoryOutstanding (liquidity_ratios m r) = daysInventoryOutstanding r"
  "daysReceivableOutstanding (liquidity_ratios m r) = daysReceivableOutstanding r"
  "daysPayableOutstanding (liquidity_ratios m r) = daysPayableOutstanding r"
  "cashConversionCycle (liquidity_ratios m r) = cashConversionCycle r"
  by (simp_all add: liquidity_ratios_def Let_def)

lemma profitability_keeps:
  "currentRatio (profitability_ratios m r) = currentRatio r"
  "cashRatio (profitability_ratios m r) = cashRatio r"
  "debtServiceCoverageRatio (profitability_ratios m r) = debtServiceCoverageRatio r"
  "inventoryTurnover (profitability_ratios m r) = inventoryTurnover r"
  "receivablesTurnover (profitability_ratios m r) = receivablesTurnover r"
  "payablesTurnover (profitability_ratios m r) = payablesTurnover r"
  "daysInventoryOutstanding (profitability_ratios m r) = daysInventoryOutstanding r"
  "daysReceivableOutstanding (profitability_ratios m r) = daysReceivableOutstanding r"
  "daysPayableOutstanding (profitability_ratios m r) = daysPayableOutstanding r"
  "cashConversionCycle (profitability_ratios m r) = cashConversionCycle r"
  by (simp_all add: profitability_ratios_def Let_def)

lemma leverage_keeps:
  "currentRatio (leverage_ratios m r) = currentRatio r"
  "cashRatio (leverage_ratios m r) = cashRatio r"
  "inventoryTurnover (leverage_ratios m r) = inventoryTurnover r"
  "receivablesTurnover (leverage_ratios m r) = receivablesTurnover r"
  "payablesTurnover (leverage_ratios m r) = payablesTurnover r"
  "daysInventoryOutstanding (leverage_ratios m r) = daysInventoryOutstanding r"
  "daysReceivableOutstanding (leverage_ratios m r) = daysReceivableOutstanding r"
  "daysPayableOutstanding (leverage_ratios m r) = daysPayableOutstanding r"
  "cashConversionCycle (leverage_ratios m r) = cashConversionCycle r"
  by (simp_all add: leverage_ratios_def Let_def)

lemma efficiency_keeps:
  "currentRatio (efficiency_ratios m r) = currentRatio r"
  "cashRatio (efficiency_ratios m r) = cashRatio r"
  "debtServiceCoverageRatio (efficiency_ratios m r) = debtServiceCoverageRatio r"
  "daysInventoryOutstanding (efficiency_ratios m r) = daysInventoryOutstanding r"
  "daysReceivableOutstanding (efficiency_ratios m r) = daysReceivableOutstanding r"
  "daysPayableOutstanding (efficiency_ratios m r) = daysPayableOutstanding r"
  "cashConversionCycle (efficiency_ratios m r) = cashConversionCycle r"
  by (simp_all add: efficiency_ratios_def Let_def)

lemma days_keeps:
  "currentRatio (days_calculations r) = currentRatio r"
  "cashRatio (days_calculations r) = cashRatio r"
  "debtServiceCoverageRatio (days_calculations r) = debtServiceCoverageRatio r"
  "cashConversionCycle (days_calculations r) = cashConversionCycle r"
  by (simp_all add: days_calculations_def Let_def)

lemma cash_conversion_keeps:
  "currentRatio (cash_conversion r) = currentRatio r"
  "cashRatio (cash_conversion r) = cashRatio r"
  "debtServiceCoverageRatio (cash_conversion r) = debtServiceCoverageRatio r"
  "daysInventoryOutstanding (cash_conversion r) = daysInventoryOutstanding r"
  "daysReceivableOutstanding (cash_conversion r) = daysReceivableOutstanding r"
  "daysPayableOutstanding (cash_conversion r) = daysPayableOutstanding r"
  by (simp_all add: cash_conversion_def)

lemmas ratio_parts_keep =
  liquidity_keeps profitability_keeps leverage_keeps efficiency_keeps days_keeps
  cash_conversion_keeps

lemma liquidity_sets_currentRatio:
  "currentRatio (liquidity_ratios m r) =
     (if currentAssets m \<noteq> None \<and> currentLiabilities m \<noteq> None
      then Some (js_div (the (currentAssets m)) (js_or (the (currentLiabilities m)) (Num 1)))
      else currentRatio r)"
  by (simp add: liquidity_ratios_def Let_def)

lemma leverage_sets_dscr:
  "debtServiceCoverageRatio (leverage_ratios m r) =
     (if operatingIncome m \<noteq> None \<and> shortTermDebt m \<noteq> None \<and> longTermDebt m \<noteq> None
      then Some (js_div (the (operatingIncome m))
             (js_or (js_add (js_add (js_or (the (shortTermDebt m)) (Num 0))
                                    (js_or (the (longTermDebt m)) (Num 0)))
                            (js_or_undef (interestExpense m) (Num 0))) (Num 1)))
      else debtServiceCoverageRatio r)"
  by (simp add: leverage_ratios_def Let_def)

lemma days_sets:
  "daysInventoryOutstanding (days_calculations r) =
     (if inventoryTurnover r \<noteq> None
      then Some (js_div (Num 365) (js_or (the (inventoryTurnover r)) (Num 1)))
      else daysInventoryOutstanding r)"
  "daysReceivableOutstanding (days_calculations r) =
     (if receivablesTurnover r \<noteq> None
      then Some (js_div (Num 365) (js_or (the (receivablesTurnover r)) (Num 1)))
      else daysReceivableOutstanding r)"
  "daysPayableOutstanding (days_calculations r) =
     (if payablesTurnover r \<noteq> None
      then Some (js_div (Num 365) (js_or (the (payablesTurnover r)) (Num 1)))
      else daysPayableOutstanding r)"
  by (auto simp: days_calculations_def Let_def)

lemma cash_conversion_sets:
  "cashConversionCycle (cash_conversion r) =
     (if daysInventoryOutstanding r \<noteq> None \<and> daysReceivableOutstanding r \<noteq> None
         \<and> daysPayableOutstanding r \<noteq> None
      then Some (js_sub (js_add (js_or (the (daysInventoryOutstanding r)) (Num 0))
                                (js_or (the (daysReceivableOutstanding r)) (Num 0)))
                        (js_or (the (daysPayableOutstanding r)) (Num 0)))
      else cashConversionCycle r)"
  by (simp add: cash_conversion_def)

lemma before_days_empty:
  "daysInventoryOutstanding (before_days m) = None"
  "daysReceivableOutstanding (before_days m) = None"
  "daysPayableOutstanding (before_days m) = None"
  "cashConversionCycle (before_days m) = None"
  by (simp_all add: before_days_def ratio_parts_keep no_ratios_def)

lemma calculateFinancialRatios_split:
  "calculateFinancialRatios m = cash_conversion (days_calculations (before_days m))"
  by (simp add: calculateFinancialRatios_def before_days_def Let_def)

lemma days_value_kept:
  assumes "daysInventoryOutstanding r = None" "daysReceivableOutstanding r = None"
    "daysPayableOutstanding r = None"
  shows "daysInventoryOutstanding (days_calculations r) \<noteq> None \<Longrightarrow>
           js_or (the (daysInventoryOutstanding (days_calculations r))) (Num 0)
             = the (daysInventoryOutstanding (days_calculations r))"
    and "daysReceivableOutstanding (days_calculations r) \<noteq> None \<Longrightarrow>
           js_or (the (daysReceivableOutstanding (days_calculations r))) (Num 0)
             = the (daysReceivableOutstanding (days_calculations r))"
    and "daysPayableOutstanding (days_calculations r) \<noteq> None \<Longrightarrow>
           js_or (the (daysPayableOutstanding (days_calculations r))) (Num 0)
             = the (daysPayableOutstanding (days_calculations r))"
  using assms by (auto simp: days_sets days_or_zero split: if_splits)

lemma js_or_Num: "js_or (Num x) (Num y) = Num (if x = 0 then y else x)"
  by (simp add: js_or_def)

section \<open>Facts about the risk assessment\<close>

lemma present_and_iff: "present_and f c = (f \<noteq> None \<and> c (the f))"
  by (cases f) (simp_all add: present_and_def)

lemma fold_check:
  "fold check rules (fs, Num s) =
     (fs @ map (fst \<circ> snd) (filter fst rules),
      Num (s + sum_list (map (snd \<circ> snd) (filter fst rules))))"
  by (induction rules arbitrary: fs s) (simp_all add: check_def)

lemma liquidity_risk_checks:
  "liquidity_risk ratios locals =
     check (present_and (quickRatio ratios) (\<lambda>v. js_lt v (Num 0.5)),
              ''Critical liquidity: Quick ratio below 0.5'', 15)
       (check (present_and (currentRatio ratios) (\<lambda>v. js_lt v (Num 1.0)),
                 ''Low liquidity: Current ratio below 1.0'', 20) locals)"
  by (cases locals) (simp add: check_def present_and_iff)

lemma profitability_risk_checks:
  "profitability_risk ratios locals =
     check (present_and (returnOnEquity ratios) (\<lambda>v. js_lt v (Num 0)),
              ''Negative ROE: Shareholders' equity is decreasing'', 20)
       (check (present_and (profitMargin ratios) (\<lambda>v. js_lt v (Num 0)),
                 ''Negative profit margin: Business operating at a loss'', 25) locals)"
  by (cases locals) (simp add: check_def present_and_iff)

lemma leverage_risk_checks:
  "leverage_risk ratios locals =
     check (present_and (debtServiceCoverageRatio ratios) (\<lambda>v. js_lt v (Num 1.0)),
              ''Debt service risk: Cannot cover debt obligations from operating income'', 30)
       (check (present_and (debtToEquityRatio ratios) (\<lambda>v. js_gt v (Num 2.0)),
                 ''High leverage: Debt-to-equity ratio exceeds 2.0'', 25) locals)"
  by (cases locals) (simp add: check_def present_and_iff)

lemma operational_risk_checks:
  "operational_risk ratios locals =
     check (present_and (inventoryTurnover ratios) (\<lambda>v. js_lt v (Num 1)),
              ''Inventory risk: Slow inventory turnover'', 10)
       (check (present_and (cashConversionCycle ratios) (\<lambda>v. js_gt v (Num 120)),
                 ''Working capital risk: Long cash conversion cycle'', 15) locals)"
  by (cases locals) (simp add: check_def present_and_iff)

lemma risk_locals:
  "operational_risk ratios (leverage_risk ratios (profitability_risk ratios
     (liquidity_risk ratios ([], Num 0))))
   = (map (fst \<circ> snd) (spec_triggered ratios),
      Num (sum_list (map (snd \<circ> snd) (spec_triggered ratios))))"
proof -
  have "operational_risk ratios (leverage_risk ratios (profitability_risk ratios
          (liquidity_risk ratios ([], Num 0))))
        = fold check (spec_risk_rules ratios) ([], Num 0)"
    unfolding liquidity_risk_checks profitability_risk_checks leverage_risk_checks
      operational_risk_checks spec_risk_rules_def
    by (simp only: fold_simps o_apply id_apply)
  then show ?thesis
    by (simp only: fold_check spec_triggered_def) simp
qed

lemma spec_risk_tier_capped:
  "spec_risk_tier (Num (min 100 s)) = spec_risk_tier (Num s)"
  by (simp add: spec_risk_tier_def js_ge_def min_def)

lemma Math_min_Num: "Math_min (Num a) (Num b) = Num (min a b)"
  by (simp add: Math_min_def min_def)

section \<open>Facts about the trend analysis\<close>

lemma trend_revenueGrowth:
  "calculateTrendAnalysis cur prev ''revenueGrowth'' =
     (if revenue cur \<noteq> None \<and> revenue prev \<noteq> None
      then Some (js_mul (js_div (js_sub (the (revenue cur)) (the (revenue prev)))
                                (the (revenue prev))) (Num 100))
      else None)"
  by (simp add: calculateTrendAnalysis_def Let_def)

lemma trend_profitGrowth:
  "calculateTrendAnalysis cur prev ''profitGrowth'' =
     (if netIncome cur \<noteq> None \<and> netIncome prev \<noteq> None
      then Some (js_mul (js_div (js_sub (the (netIncome cur)) (the (netIncome prev)))
                                (the (netIncome prev))) (Num 100))
      else None)"
  by (simp add: calculateTrendAnalysis_def Let_def)

lemma trend_assetGrowth:
  "calculateTrendAnalysis cur prev ''assetGrowth'' =
     (if assets cur \<noteq> None \<and> assets prev \<noteq> None
      then Some (js_mul (js_div (js_sub (the (assets cur)) (the (assets prev)))
                                (the (assets prev))) (Num 100))
      else None)"
  by (simp add: calculateTrendAnalysis_def Let_def)

lemma trend_equityGrowth:
  "calculateTrendAnalysis cur prev ''equityGrowth'' =
     (if equity cur \<noteq> None \<and> equity prev \<noteq> None
      then Some (js_mul (js_div (js_sub (the (equity cur)) (the (equity prev)))
                                (the (equity prev))) (Num 100))
      else None)"
  by (simp add: calculateTrendAnalysis_def Let_def)

lemmas trend_lookups =
  trend_revenueGrowth trend_profitGrowth trend_assetGrowth trend_equityGrowth

lemma trend_dom:
  "dom (calculateTrendAnalysis cur prev)
     \<subseteq> {''revenueGrowth'', ''profitGrowth'', ''assetGrowth'', ''equityGrowth''}"
  by (simp add: calculateTrendAnalysis_def Let_def)

lemma growth_finite:
  "p \<noteq> 0 \<Longrightarrow> js_mul (js_div (js_sub (Num c) (Num p)) (Num p)) (Num 100)
     = Num ((c - p) / p * 100)"
  by (simp add: js_sub_def)

section \<open>Facts about the credit score\<close>

lemmas credit_blocks =
  liquidity_score_def profitability_score_def leverage_score_def efficiency_score_def

lemmas js_ops = js_sub_def js_gt_def js_ge_def js_or_def Math_max_def Math_min_def

section \<open>Facts about the cost recommendations\<close>

lemma js_or_undef_in_effect: "js_or_undef (benchmarks k) dflt = benchmark_in_effect benchmarks k dflt"
  by (cases "benchmarks k"; cases "the (benchmarks k)")
     (simp_all add: js_or_undef_def benchmark_in_effect_def js_or_def)

lemma savings_nonneg:
  "js_gt r (Num 0) \<Longrightarrow> js_gt x b \<Longrightarrow>
     js_ge (js_mul r (js_div (js_sub x b) (Num 100))) (Num 0)"
  by (cases r; cases x; cases b)
     (simp_all add: js_gt_def js_ge_def js_sub_def signed_inf_def)

lemma js_ge_zero_zero: "js_ge (Num 0) (Num 0)"
  by (simp add: js_ge_def)

lemma for_category_snoc:
  "for_category c (recs @ [r]) =
     (case for_category c recs of Some y \<Rightarrow> Some y
      | None \<Rightarrow> if category r = c then Some r else None)"
  unfolding for_category_def by (induction recs) simp_all

lemma for_category_Nil: "for_category c [] = None"
  by (simp add: for_category_def)

lemmas cost_blocks =
  operating_expense_optimization_def cogs_optimization_def working_capital_optimization_def

lemma opex_block_savings:
  "revenue metrics = None \<or> js_gt (the (revenue metrics)) (Num 0) \<Longrightarrow>
   list_all (\<lambda>r. js_ge (savingsPotential r) (Num 0)) recs \<Longrightarrow>
   list_all (\<lambda>r. js_ge (savingsPotential r) (Num 0))
     (operating_expense_optimization toFixed metrics benchmarks recs)"
  by (auto simp: operating_expense_optimization_def Let_def savings_nonneg)

lemma cogs_block_savings:
  "revenue metrics = None \<or> js_gt (the (revenue metrics)) (Num 0) \<Longrightarrow>
   list_all (\<lambda>r. js_ge (savingsPotential r) (Num 0)) recs \<Longrightarrow>
   list_all (\<lambda>r. js_ge (savingsPotential r) (Num 0))
     (cogs_optimization toFixed metrics benchmarks recs)"
  by (auto simp: cogs_optimization_def Let_def savings_nonneg)

lemma working_capital_block_savings:
  "list_all (\<lambda>r. js_ge (savingsPotential r) (Num 0)) recs \<Longrightarrow>
   list_all (\<lambda>r. js_ge (savingsPotential r) (Num 0))
     (working_capital_optimization toFixed ratios benchmarks recs)"
  by (auto simp: working_capital_optimization_def Let_def js_ge_zero_zero)

lemma benchmark_for_category_snoc:
  "map_option benchmarkValue (for_category c (recs @ [r])) =
     (case map_option benchmarkValue (for_category c recs) of Some b \<Rightarrow> Some b
      | None \<Rightarrow> if c = category r then Some (benchmarkValue r) else None)"
  by (auto simp: for_category_snoc split: option.splits)

lemma opex_block_benchmark:
  "map_option benchmarkValue
     (for_category c (operating_expense_optimization toFixed metrics benchmarks recs)) =
     (case map_option benchmarkValue (for_category c recs) of Some b \<Rightarrow> Some b
      | None \<Rightarrow>
        if c = ''Operating Expenses''
           \<and> operatingExpenses metrics \<noteq> None \<and> revenue metrics \<noteq> None
           \<and> js_gt (js_mul (js_div (the (operatingExpenses metrics)) (the (revenue metrics)))
                            (Num 100))
                    (benchmark_in_effect benchmarks ''operatingExpenseRatio'' (Num 30))
        then Some (benchmark_in_effect benchmarks ''operatingExpenseRatio'' (Num 30))
        else None)"
  by (simp add: operating_expense_optimization_def Let_def benchmark_for_category_snoc
        js_or_undef_in_effect split: option.splits)

lemma cogs_block_benchmark:
  "map_option benchmarkValue
     (for_category c (cogs_optimization toFixed metrics benchmarks recs)) =
     (case map_option benchmarkValue (for_category c recs) of Some b \<Rightarrow> Some b
      | None \<Rightarrow>
        if c = ''Cost of Goods Sold''
           \<and> cogs metrics \<noteq> None \<and> revenue metrics \<noteq> None
           \<and> js_gt (js_mul (js_div (the (cogs metrics)) (the (revenue metrics))) (Num 100))
                    (benchmark_in_effect benchmarks ''cogsRatio'' (Num 60))
        then Some (benchmark_in_effect benchmarks ''cogsRatio'' (Num 60))
        else None)"
  by (simp add: cogs_optimization_def Let_def benchmark_for_category_snoc
        js_or_undef_in_effect split: option.splits)

lemma working_capital_block_benchmark:
  "map_option benchmarkValue
     (for_category c (working_capital_optimization toFixed ratios benchmarks recs)) =
     (case map_option benchmarkValue (for_category c recs) of Some b \<Rightarrow> Some b
      | None \<Rightarrow>
        if c = ''Accounts Receivable''
           \<and> daysReceivableOutstanding ratios \<noteq> None
           \<and> js_gt (the (daysReceivableOutstanding ratios))
                    (benchmark_in_effect benchmarks ''daysReceivableOutstanding'' (Num 45))
        then Some (benchmark_in_effect benchmarks ''daysReceivableOutstanding'' (Num 45))
        else None)"
  by (simp add: working_capital_optimization_def Let_def benchmark_for_category_snoc
        js_or_undef_in_effect split: option.splits)

lemmas cost_block_benchmarks =
  opex_block_benchmark cogs_block_benchmark working_capital_block_benchmark

text \<open>
  With a revenue of \<^verbatim>\<open>0\<close> and positive operating expenses the unguarded division gives the
  ratio \<^verbatim>\<open>Infinity\<close>, and the savings \<^verbatim>\<open>0 * Infinity\<close> are NaN.
\<close>

lemma zero_revenue_savings_NaN:
  "map savingsPotential
     (generateCostOptimizationRecommendations toFixed_any no_ratios zero_revenue_metrics
        no_benchmarks) = [NaN]"
  by (simp add: generateCostOptimizationRecommendations_def Let_def cost_blocks
        zero_revenue_metrics_def no_metrics_def no_ratios_def no_benchmarks_def
        js_or_undef_def js_or_def js_gt_def js_sub_def signed_inf_def)

section \<open>Claims about the ratio calculation\<close>

text \<open>
  C10. No statement of \<^verbatim>\<open>calculateFinancialRatios\<close> assigns \<^verbatim>\<open>ratios.cashRatio\<close>: for every
  metrics input the field \<^verbatim>\<open>cashRatio\<close> is absent from the output, although the type
  \<^verbatim>\<open>CalculatedRatios\<close> declares it.
\<close>

theorem cashRatio_never_set: "cashRatio (calculateFinancialRatios metrics) = None"
  by (simp add: calculateFinancialRatios_def Let_def ratio_parts_keep no_ratios_def)

text \<open>
  C7. When \<^verbatim>\<open>currentAssets\<close> is defined and \<^verbatim>\<open>currentLiabilities\<close> is defined and equal to
  \<^verbatim>\<open>0\<close>, the current ratio is computed with the denominator \<^verbatim>\<open>1\<close>, so it equals
  \<^verbatim>\<open>currentAssets\<close>; the division turns no finite \<^verbatim>\<open>currentAssets\<close> into NaN or an
  infinity.
\<close>

theorem currentRatio_zero_liabilities:
  assumes "currentAssets metrics = Some a" and "currentLiabilities metrics = Some (Num 0)"
  shows "currentRatio (calculateFinancialRatios metrics) = Some (js_div a (Num 1))
         \<and> js_div a (Num 1) = a
         \<and> (js_finite a \<longrightarrow> js_finite (js_div a (Num 1)))"
  using assms
  by (simp add: calculateFinancialRatios_def Let_def ratio_parts_keep
        liquidity_sets_currentRatio)

text \<open>
  C7, at a concrete input: current assets of 100000 against current liabilities of 0 give
  the current ratio 100000.
\<close>

theorem currentRatio_zero_liabilities_witness:
  "currentRatio (calculateFinancialRatios zero_liabilities_metrics) = Some (Num 100000)"
  using currentRatio_zero_liabilities [of zero_liabilities_metrics "Num 100000"]
  by (simp add: zero_liabilities_metrics_def no_metrics_def)

text \<open>
  C8. The output of \<^verbatim>\<open>calculateFinancialRatios\<close> contains \<^verbatim>\<open>cashConversionCycle\<close> if and
  only if it contains all three of \<^verbatim>\<open>daysInventoryOutstanding\<close>,
  \<^verbatim>\<open>daysReceivableOutstanding\<close> and \<^verbatim>\<open>daysPayableOutstanding\<close>, and then the cycle is the
  first plus the second minus the third. (The \<^verbatim>\<open>|| 0\<close> on each term changes nothing:
  a days value is \<^verbatim>\<open>365\<close> over a number that is neither zero nor NaN, so it is never
  NaN.)
\<close>

theorem cashConversionCycle_iff_days:
  "(cashConversionCycle (calculateFinancialRatios metrics) \<noteq> None) =
     (daysInventoryOutstanding (calculateFinancialRatios metrics) \<noteq> None
      \<and> daysReceivableOutstanding (calculateFinancialRatios metrics) \<noteq> None
      \<and> daysPayableOutstanding (calculateFinancialRatios metrics) \<noteq> None)
   \<and> (cashConversionCycle (calculateFinancialRatios metrics) \<noteq> None \<longrightarrow>
        cashConversionCycle (calculateFinancialRatios metrics) =
          Some (js_sub
                 (js_add (the (daysInventoryOutstanding (calculateFinancialRatios metrics)))
                         (the (daysReceivableOutstanding (calculateFinancialRatios metrics))))
                 (the (daysPayableOutstanding (calculateFinancialRatios metrics)))))"
proof -
  let ?r = "days_calculations (before_days metrics)"
  have none: "cashConversionCycle ?r = None"
    by (simp add: days_keeps before_days_empty)
  have keep: "js_or (the (daysInventoryOutstanding ?r)) (Num 0) = the (daysInventoryOutstanding ?r)"
    if "daysInventoryOutstanding ?r \<noteq> None"
    using that by (rule days_value_kept(1) [OF before_days_empty(1-3)])
  have keep2: "js_or (the (daysReceivableOutstanding ?r)) (Num 0) = the (daysReceivableOutstanding ?r)"
    if "daysReceivableOutstanding ?r \<noteq> None"
    using that by (rule days_value_kept(2) [OF before_days_empty(1-3)])
  have keep3: "js_or (the (daysPayableOutstanding ?r)) (Num 0) = the (daysPayableOutstanding ?r)"
    if "daysPayableOutstanding ?r \<noteq> None"
    using that by (rule days_value_kept(3) [OF before_days_empty(1-3)])
  show ?thesis
    unfolding calculateFinancialRatios_split
    by (simp add: cash_conversion_sets cash_conversion_keeps none keep keep2 keep3)
qed

text \<open>
  C8, at the metrics of the repository's efficiency test: the three days values are
  365/12, 36.5 and 365/8, and the cycle is their combination 511/24.
\<close>

theorem cashConversionCycle_iff_days_witness:
  "cashConversionCycle (calculateFinancialRatios efficiency_metrics) = Some (Num (511 / 24))
   \<and> daysInventoryOutstanding (calculateFinancialRatios efficiency_metrics) = Some (Num (365 / 12))
   \<and> daysReceivableOutstanding (calculateFinancialRatios efficiency_metrics) = Some (Num (73 / 2))
   \<and> daysPayableOutstanding (calculateFinancialRatios efficiency_metrics) = Some (Num (365 / 8))"
proof -
  let ?r = "calculateFinancialRatios efficiency_metrics"
  have d: "daysInventoryOutstanding ?r = Some (Num (365 / 12))"
    "daysReceivableOutstanding ?r = Some (Num (73 / 2))"
    "daysPayableOutstanding ?r = Some (Num (365 / 8))"
    by (simp_all add: calculateFinancialRatios_def efficiency_metrics_def no_metrics_def
          no_ratios_def liquidity_ratios_def profitability_ratios_def leverage_ratios_def
          efficiency_ratios_def days_calculations_def cash_conversion_def Let_def js_or_def)
  from cashConversionCycle_iff_days [of efficiency_metrics] d
  have "cashConversionCycle ?r = Some (Num (511 / 24))"
    by (simp add: js_sub_def)
  with d show ?thesis by simp
qed

text \<open>
  C3 as stated fails: with \<^verbatim>\<open>operatingIncome\<close> defined and nothing else, the output has no
  \<^verbatim>\<open>debtServiceCoverageRatio\<close>. The guard at line 121 also asks for \<^verbatim>\<open>shortTermDebt\<close> and
  \<^verbatim>\<open>longTermDebt\<close>.
\<close>

theorem dscr_needs_both_debts_counterexample:
  "operatingIncome income_only_metrics = Some (Num 100)
   \<and> debtServiceCoverageRatio (calculateFinancialRatios income_only_metrics) = None"
  by (simp add: calculateFinancialRatios_def Let_def ratio_parts_keep leverage_sets_dscr
        no_ratios_def income_only_metrics_def no_metrics_def)

text \<open>
  C3, amended. The output contains \<^verbatim>\<open>debtServiceCoverageRatio\<close> if and only if
  \<^verbatim>\<open>operatingIncome\<close>, \<^verbatim>\<open>shortTermDebt\<close> and \<^verbatim>\<open>longTermDebt\<close> are all defined. For finite
  values it then equals \<^verbatim>\<open>operatingIncome\<close> divided by the sum of the two debts and
  \<^verbatim>\<open>interestExpense\<close>, where \<^verbatim>\<open>interestExpense\<close> counts as \<^verbatim>\<open>0\<close> when absent and the sum
  is replaced by \<^verbatim>\<open>1\<close> when it is \<^verbatim>\<open>0\<close>.
\<close>

theorem dscr_when_debts_defined:
  "(debtServiceCoverageRatio (calculateFinancialRatios metrics) \<noteq> None) =
     (operatingIncome metrics \<noteq> None \<and> shortTermDebt metrics \<noteq> None
      \<and> longTermDebt metrics \<noteq> None)
   \<and> (operatingIncome metrics = Some (Num oi) \<and> shortTermDebt metrics = Some (Num s)
       \<and> longTermDebt metrics = Some (Num l)
       \<and> (interestExpense metrics = None \<and> i = 0 \<or> interestExpense metrics = Some (Num i))
     \<longrightarrow> debtServiceCoverageRatio (calculateFinancialRatios metrics) =
           Some (Num (oi / (if s + l + i = 0 then 1 else s + l + i))))"
  by (auto simp: calculateFinancialRatios_def Let_def ratio_parts_keep leverage_sets_dscr
        no_ratios_def js_or_Num js_or_undef_def)

text \<open>
  C3 amended, at three concrete inputs: 90000 over 10000 + 30000 + 5000 is 2; with both
  debts 0 and no interest expense the denominator is 1; with the debts absent there is no
  ratio.
\<close>

theorem dscr_when_debts_defined_witness:
  "debtServiceCoverageRatio (calculateFinancialRatios debt_metrics) = Some (Num 2)
   \<and> debtServiceCoverageRatio (calculateFinancialRatios zero_debt_metrics) = Some (Num 90000)
   \<and> debtServiceCoverageRatio (calculateFinancialRatios income_only_metrics) = None"
  using dscr_when_debts_defined [of debt_metrics 90000 10000 30000 5000]
    dscr_when_debts_defined [of zero_debt_metrics 90000 0 0 0]
    dscr_when_debts_defined [of income_only_metrics 0 0 0 0]
  by (simp add: debt_metrics_def zero_debt_metrics_def income_only_metrics_def no_metrics_def)

section \<open>Claims about the risk assessment and the trend analysis\<close>

text \<open>
  C4. For every ratios input, \<^verbatim>\<open>assessFinancialRisks\<close> returns as \<^verbatim>\<open>riskFactors\<close> exactly the
  messages of the rules that are triggered, in the order of the table (a rule whose ratio
  is absent is not triggered); as \<^verbatim>\<open>riskScore\<close> the sum of their points (20, 15, 25, 20,
  25, 30, 15, 10) capped at 100; and as \<^verbatim>\<open>riskTier\<close> the tier that the ladder gives for
  the returned score.
\<close>

theorem risk_assessment_by_rules:
  "riskFactors (assessFinancialRisks ratios metrics) = map (fst \<circ> snd) (spec_triggered ratios)
   \<and> riskScore (assessFinancialRisks ratios metrics) =
       Num (min 100 (sum_list (map (snd \<circ> snd) (spec_triggered ratios))))
   \<and> riskTier (assessFinancialRisks ratios metrics) =
       spec_risk_tier (riskScore (assessFinancialRisks ratios metrics))"
proof -
  let ?s = "sum_list (map (snd \<circ> snd) (spec_triggered ratios))"
  have "assessFinancialRisks ratios metrics =
          \<lparr>riskTier = spec_risk_tier (Num ?s),
           riskFactors = map (fst \<circ> snd) (spec_triggered ratios),
           riskScore = Math_min (Num 100) (Num ?s)\<rparr>"
    unfolding assessFinancialRisks_def Let_def risk_locals fst_conv snd_conv
      spec_risk_tier_def ..
  then show ?thesis
    by (simp add: spec_risk_tier_capped Math_min_Num)
qed

text \<open>
  C4, at two concrete inputs. With all eight rules triggered the points add up to 160, the
  score is capped at 100 and the tier is \<^verbatim>\<open>very_high\<close>. With the first, third and fifth
  rule triggered (the ratios of the repository's specific-risk-factors test) the score is
  70 and the tier is \<^verbatim>\<open>high\<close>.
\<close>

theorem risk_assessment_by_rules_witness:
  "riskFactors (assessFinancialRisks all_risks_ratios no_metrics) =
     [''Low liquidity: Current ratio below 1.0'',
      ''Critical liquidity: Quick ratio below 0.5'',
      ''Negative profit margin: Business operating at a loss'',
      ''Negative ROE: Shareholders' equity is decreasing'',
      ''High leverage: Debt-to-equity ratio exceeds 2.0'',
      ''Debt service risk: Cannot cover debt obligations from operating income'',
      ''Working capital risk: Long cash conversion cycle'',
      ''Inventory risk: Slow inventory turnover'']
   \<and> riskScore (assessFinancialRisks all_risks_ratios no_metrics) = Num 100
   \<and> riskTier (assessFinancialRisks all_risks_ratios no_metrics) = ''very_high''
   \<and> riskFactors (assessFinancialRisks three_risks_ratios no_metrics) =
     [''Low liquidity: Current ratio below 1.0'',
      ''Negative profit margin: Business operating at a loss'',
      ''High leverage: Debt-to-equity ratio exceeds 2.0'']
   \<and> riskScore (assessFinancialRisks three_risks_ratios no_metrics) = Num 70
   \<and> riskTier (assessFinancialRisks three_risks_ratios no_metrics) = ''high''"
proof -
  have a: "map snd (spec_triggered all_risks_ratios) =
     [(''Low liquidity: Current ratio below 1.0'', 20),
      (''Critical liquidity: Quick ratio below 0.5'', 15),
      (''Negative profit margin: Business operating at a loss'', 25),
      (''Negative ROE: Shareholders' equity is decreasing'', 20),
      (''High leverage: Debt-to-equity ratio exceeds 2.0'', 25),
      (''Debt service risk: Cannot cover debt obligations from operating income'', 30),
      (''Working capital risk: Long cash conversion cycle'', 15),
      (''Inventory risk: Slow inventory turnover'', 10)]"
    by (simp add: spec_triggered_def spec_risk_rules_def all_risks_ratios_def no_ratios_def
          present_and_def js_gt_def)
  have b: "map snd (spec_triggered three_risks_ratios) =
     [(''Low liquidity: Current ratio below 1.0'', 20),
      (''Negative profit margin: Business operating at a loss'', 25),
      (''High leverage: Debt-to-equity ratio exceeds 2.0'', 25)]"
    by (simp add: spec_triggered_def spec_risk_rules_def three_risks_ratios_def no_ratios_def
          present_and_def js_gt_def)
  have f: "map (fst \<circ> snd) rs = map fst (map snd rs)"
    and s: "map (snd \<circ> snd) rs = map snd (map snd rs)"
    for rs :: "(bool \<times> string \<times> real) list"
    by simp_all
  show ?thesis
    using risk_assessment_by_rules [of all_risks_ratios no_metrics]
      risk_assessment_by_rules [of three_risks_ratios no_metrics]
    unfolding f s a b
    by (simp add: spec_risk_tier_def js_ge_def)
qed

text \<open>
  C9. The output of \<^verbatim>\<open>calculateTrendAnalysis\<close> has no key besides \<^verbatim>\<open>revenueGrowth\<close>,
  \<^verbatim>\<open>profitGrowth\<close>, \<^verbatim>\<open>assetGrowth\<close> and \<^verbatim>\<open>equityGrowth\<close>; each of the four is there if
  and only if \<^verbatim>\<open>revenue\<close> (respectively \<^verbatim>\<open>netIncome\<close>, \<^verbatim>\<open>assets\<close>, \<^verbatim>\<open>equity\<close>) is defined in
  both inputs; and for finite values with a nonzero previous value it is
  (current - previous) / previous * 100.
\<close>

theorem trend_keys_and_values:
  "dom (calculateTrendAnalysis currentMetrics previousMetrics)
     \<subseteq> {''revenueGrowth'', ''profitGrowth'', ''assetGrowth'', ''equityGrowth''}
   \<and> (''revenueGrowth'' \<in> dom (calculateTrendAnalysis currentMetrics previousMetrics))
       = (revenue currentMetrics \<noteq> None \<and> revenue previousMetrics \<noteq> None)
   \<and> (''profitGrowth'' \<in> dom (calculateTrendAnalysis currentMetrics previousMetrics))
       = (netIncome currentMetrics \<noteq> None \<and> netIncome previousMetrics \<noteq> None)
   \<and> (''assetGrowth'' \<in> dom (calculateTrendAnalysis currentMetrics previousMetrics))
       = (assets currentMetrics \<noteq> None \<and> assets previousMetrics \<noteq> None)
   \<and> (''equityGrowth'' \<in> dom (calculateTrendAnalysis currentMetrics previousMetrics))
       = (equity currentMetrics \<noteq> None \<and> equity previousMetrics \<noteq> None)
   \<and> (revenue currentMetrics = Some (Num c) \<and> revenue previousMetrics = Some (Num p)
        \<and> p \<noteq> 0 \<longrightarrow>
       calculateTrendAnalysis currentMetrics previousMetrics ''revenueGrowth''
         = Some (Num ((c - p) / p * 100)))
   \<and> (netIncome currentMetrics = Some (Num c) \<and> netIncome previousMetrics = Some (Num p)
        \<and> p \<noteq> 0 \<longrightarrow>
       calculateTrendAnalysis currentMetrics previousMetrics ''profitGrowth''
         = Some (Num ((c - p) / p * 100)))
   \<and> (assets currentMetrics = Some (Num c) \<and> assets previousMetrics = Some (Num p)
        \<and> p \<noteq> 0 \<longrightarrow>
       calculateTrendAnalysis currentMetrics previousMetrics ''assetGrowth''
         = Some (Num ((c - p) / p * 100)))
   \<and> (equity currentMetrics = Some (Num c) \<and> equity previousMetrics = Some (Num p)
        \<and> p \<noteq> 0 \<longrightarrow>
       calculateTrendAnalysis currentMetrics previousMetrics ''equityGrowth''
         = Some (Num ((c - p) / p * 100)))"
  by (simp add: trend_dom domIff trend_lookups growth_finite)

text \<open>
  C9, at two concrete pairs. With all four fields on both sides the growths are 20, 20,
  10 and 20 percent. With net income missing on the previous side and assets on the
  current side, only \<^verbatim>\<open>revenueGrowth\<close> is there.
\<close>

theorem trend_keys_and_values_witness:
  "calculateTrendAnalysis later_metrics former_metrics ''revenueGrowth'' = Some (Num 20)
   \<and> calculateTrendAnalysis later_metrics former_metrics ''profitGrowth'' = Some (Num 20)
   \<and> calculateTrendAnalysis later_metrics former_metrics ''assetGrowth'' = Some (Num 10)
   \<and> calculateTrendAnalysis later_metrics former_metrics ''equityGrowth'' = Some (Num 20)
   \<and> ''revenueGrowth'' \<in> dom (calculateTrendAnalysis growing_metrics earlier_metrics)
   \<and> ''profitGrowth'' \<notin> dom (calculateTrendAnalysis growing_metrics earlier_metrics)
   \<and> ''assetGrowth'' \<notin> dom (calculateTrendAnalysis growing_metrics earlier_metrics)
   \<and> ''equityGrowth'' \<notin> dom (calculateTrendAnalysis growing_metrics earlier_metrics)"
  using trend_keys_and_values [of later_metrics former_metrics 1200000 1000000]
    trend_keys_and_values [of later_metrics former_metrics 60000 50000]
    trend_keys_and_values [of later_metrics former_metrics 550000 500000]
    trend_keys_and_values [of later_metrics former_metrics 300000 250000]
    trend_keys_and_values [of growing_metrics earlier_metrics 0 0]
  by (simp add: later_metrics_def former_metrics_def growing_metrics_def earlier_metrics_def
        no_metrics_def)

section \<open>Claims about the credit score\<close>

text \<open>
  C1 fails on the code. The function's own comment says that it returns a score between
  0 and 100, yet the sub-score from the return on equity is \<^verbatim>\<open>Math.min(100, ...)\<close> with no
  lower bound. A business with a net income of -150000 on an equity of 100000 has a
  return on equity of -150 percent; with both caller scores left at their default 50 the
  function returns the score -117.5.
\<close>

theorem negative_credit_score:
  "score (calculateCreditScore (calculateFinancialRatios loss_metrics) loss_metrics None None)
     = Num (- 117.5)
   \<and> \<not> in_0_100
       (score (calculateCreditScore (calculateFinancialRatios loss_metrics) loss_metrics None None))"
proof -
  have r: "calculateFinancialRatios loss_metrics = no_ratios\<lparr>returnOnEquity := Some (Num (- 150))\<rparr>"
    by (simp add: calculateFinancialRatios_def loss_metrics_def no_metrics_def
          no_ratios_def liquidity_ratios_def profitability_ratios_def leverage_ratios_def
          efficiency_ratios_def days_calculations_def cash_conversion_def Let_def js_or_def)
  show ?thesis
    unfolding r
    by (simp add: calculateCreditScore_def Let_def credit_blocks js_ops no_ratios_def
          in_0_100_def)
qed

text \<open>
  C5 as stated fails: the tier is read off the weighted sum before it is rounded. With
  factor scores 75, 100, 80, 100, a growth score of 49.97 and a payment history score of
  0 the weighted sum is 79.997; the tier is \<^verbatim>\<open>good\<close>, the returned score is 80, and the
  ladder at 80 says \<^verbatim>\<open>excellent\<close>.
\<close>

theorem tier_not_from_rounded_score_counterexample:
  "tier (calculateCreditScore borderline_ratios no_metrics (Some (Num 0)) (Some (Num 49.97)))
     = ''good''
   \<and> score (calculateCreditScore borderline_ratios no_metrics (Some (Num 0)) (Some (Num 49.97)))
     = Num 80
   \<and> spec_credit_tier
       (score (calculateCreditScore borderline_ratios no_metrics (Some (Num 0)) (Some (Num 49.97))))
     = ''excellent''"
  by (simp add: calculateCreditScore_def Let_def credit_blocks js_ops borderline_ratios_def
        no_ratios_def spec_credit_tier_def)

text \<open>
  C5, amended. For every input the returned tier is what the ladder gives for the weighted
  sum of the returned factors, not rounded, and the returned score is that weighted sum
  rounded to two decimals.
\<close>

theorem tier_from_unrounded_score:
  "tier (calculateCreditScore ratios metrics paymentHistoryScore_arg growthScore_arg) =
     spec_credit_tier (spec_weighted_score
       (factors (calculateCreditScore ratios metrics paymentHistoryScore_arg growthScore_arg)))
   \<and> score (calculateCreditScore ratios metrics paymentHistoryScore_arg growthScore_arg) =
     spec_round2 (spec_weighted_score
       (factors (calculateCreditScore ratios metrics paymentHistoryScore_arg growthScore_arg)))"
  by (simp add: calculateCreditScore_def Let_def spec_weighted_score_def spec_round2_def
        spec_credit_tier_def)

text \<open>
  C5 amended, at the ratios of the repository's average-business test: the weighted sum
  is 68.1666..., the tier is \<^verbatim>\<open>good\<close> and the returned score is 68.17.
\<close>

theorem tier_from_unrounded_score_witness:
  "tier (calculateCreditScore average_ratios no_metrics (Some (Num 50)) (Some (Num 50)))
     = ''good''
   \<and> score (calculateCreditScore average_ratios no_metrics (Some (Num 50)) (Some (Num 50)))
     = Num 68.17"
proof -
  have f: "factors (calculateCreditScore average_ratios no_metrics (Some (Num 50)) (Some (Num 50)))
      = \<lparr>liquidityScore = Num 75, profitabilityScore = Num (200 / 3),
          leverageScore = Num 80, efficiencyScore = Num 60,
          growthScore = Num 50, paymentHistoryScore = Num 50\<rparr>"
    by (simp add: calculateCreditScore_def Let_def credit_blocks js_ops average_ratios_def
          no_ratios_def)
  show ?thesis
    using tier_from_unrounded_score
            [of average_ratios no_metrics "Some (Num 50)" "Some (Num 50)"]
    unfolding f
    by (simp add: spec_weighted_score_def spec_round2_def spec_credit_tier_def js_ge_def)
qed

section \<open>Claims about the cost recommendations\<close>

text \<open>
  C2 as stated fails: a supplied benchmark of \<^verbatim>\<open>0\<close> is not used as it is. With operating
  expenses of 400000 on a revenue of 1000000 (a ratio of 40) and the benchmark
  \<^verbatim>\<open>operatingExpenseRatio: 0\<close>, the one recommendation reports the benchmark 30 and
  savings of 100000, which are those of the default.
\<close>

theorem zero_benchmark_replaced_counterexample:
  "zero_benchmark ''operatingExpenseRatio'' = Some (Num 0)
   \<and> spec_benchmark zero_benchmark ''operatingExpenseRatio'' (Num 30) = Num 0
   \<and> map benchmarkValue
       (generateCostOptimizationRecommendations toFixed_any no_ratios high_opex_metrics
          zero_benchmark) = [Num 30]
   \<and> map savingsPotential
       (generateCostOptimizationRecommendations toFixed_any no_ratios high_opex_metrics
          zero_benchmark) = [Num 100000]"
  by (simp add: generateCostOptimizationRecommendations_def Let_def cost_blocks
        high_opex_metrics_def no_metrics_def no_ratios_def zero_benchmark_def
        spec_benchmark_def js_or_undef_def js_or_def js_gt_def js_sub_def)

text \<open>
  C2, amended. For every input, the benchmark of each of the three checks is the default
  (30, 60, 45) when its key is missing from the mapping or the supplied number is \<^verbatim>\<open>0\<close> or
  NaN, and the supplied number otherwise: a recommendation of the category is returned
  exactly when the current value exceeds that benchmark, and it reports that benchmark.
\<close>

theorem benchmark_default_when_missing_or_falsy:
  "map_option benchmarkValue (for_category ''Operating Expenses''
       (generateCostOptimizationRecommendations toFixed ratios metrics benchmarks)) =
     (if operatingExpenses metrics \<noteq> None \<and> revenue metrics \<noteq> None
         \<and> js_gt (js_mul (js_div (the (operatingExpenses metrics)) (the (revenue metrics)))
                          (Num 100))
                  (benchmark_in_effect benchmarks ''operatingExpenseRatio'' (Num 30))
      then Some (benchmark_in_effect benchmarks ''operatingExpenseRatio'' (Num 30))
      else None)
   \<and> map_option benchmarkValue (for_category ''Cost of Goods Sold''
       (generateCostOptimizationRecommendations toFixed ratios metrics benchmarks)) =
     (if cogs metrics \<noteq> None \<and> revenue metrics \<noteq> None
         \<and> js_gt (js_mul (js_div (the (cogs metrics)) (the (revenue metrics))) (Num 100))
                  (benchmark_in_effect benchmarks ''cogsRatio'' (Num 60))
      then Some (benchmark_in_effect benchmarks ''cogsRatio'' (Num 60))
      else None)
   \<and> map_option benchmarkValue (for_category ''Accounts Receivable''
       (generateCostOptimizationRecommendations toFixed ratios metrics benchmarks)) =
     (if daysReceivableOutstanding ratios \<noteq> None
         \<and> js_gt (the (daysReceivableOutstanding ratios))
                  (benchmark_in_effect benchmarks ''daysReceivableOutstanding'' (Num 45))
      then Some (benchmark_in_effect benchmarks ''daysReceivableOutstanding'' (Num 45))
      else None)"
  unfolding generateCostOptimizationRecommendations_def Let_def cost_block_benchmarks
  by (simp add: for_category_Nil)

text \<open>
  C2 amended, at a concrete input: the supplied benchmark 25 is used for the operating
  expenses, the default 60 for the cost of goods sold, whose key is missing, and without a
  days-receivable ratio there is no third recommendation.
\<close>

theorem benchmark_default_when_missing_or_falsy_witness:
  "map_option benchmarkValue (for_category ''Operating Expenses''
       (generateCostOptimizationRecommendations toFixed_any no_ratios high_costs_metrics
          opex_benchmark_25)) = Some (Num 25)
   \<and> map_option benchmarkValue (for_category ''Cost of Goods Sold''
       (generateCostOptimizationRecommendations toFixed_any no_ratios high_costs_metrics
          opex_benchmark_25)) = Some (Num 60)
   \<and> map_option benchmarkValue (for_category ''Accounts Receivable''
       (generateCostOptimizationRecommendations toFixed_any no_ratios high_costs_metrics
          opex_benchmark_25)) = None"
proof -
  have b: "benchmark_in_effect opex_benchmark_25 ''operatingExpenseRatio'' (Num 30) = Num 25"
    "benchmark_in_effect opex_benchmark_25 ''cogsRatio'' (Num 60) = Num 60"
    by (simp_all add: benchmark_in_effect_def opex_benchmark_25_def)
  from benchmark_default_when_missing_or_falsy
         [of toFixed_any no_ratios high_costs_metrics opex_benchmark_25]
  show ?thesis
    unfolding b
    by (simp add: high_costs_metrics_def no_metrics_def no_ratios_def js_gt_def)
qed

text \<open>
  C6 as stated fails: the function does not check the sign of its inputs. With a revenue
  of -1000 and operating expenses of -500 the ratio is 50, above the default benchmark
  30, and the savings potential is -1000 * (50 - 30) / 100 = -200.
\<close>

theorem negative_savings_counterexample:
  "map savingsPotential
     (generateCostOptimizationRecommendations toFixed_any no_ratios negative_revenue_metrics
        no_benchmarks) = [Num (- 200)]
   \<and> \<not> js_ge (Num (- 200)) (Num 0)"
  by (simp add: generateCostOptimizationRecommendations_def Let_def cost_blocks
        negative_revenue_metrics_def no_metrics_def no_ratios_def no_benchmarks_def
        js_or_undef_def js_or_def js_gt_def js_ge_def js_sub_def)

text \<open>
  C6, amended. For every input in which \<^verbatim>\<open>revenue\<close> is absent or greater than \<^verbatim>\<open>0\<close>, every
  recommendation in the returned list has a savings potential of at least \<^verbatim>\<open>0\<close>.
\<close>

theorem savings_nonneg_for_positive_revenue:
  assumes "revenue metrics = None \<or> js_gt (the (revenue metrics)) (Num 0)"
  shows "\<forall>r \<in> set (generateCostOptimizationRecommendations toFixed ratios metrics benchmarks).
           js_ge (savingsPotential r) (Num 0)"
proof -
  have "list_all (\<lambda>r. js_ge (savingsPotential r) (Num 0))
          (generateCostOptimizationRecommendations toFixed ratios metrics benchmarks)"
    unfolding generateCostOptimizationRecommendations_def Let_def
    by (intro working_capital_block_savings cogs_block_savings opex_block_savings assms)
       simp
  then show ?thesis by (simp add: list_all_iff)
qed

text \<open>
  C6 amended, at the input of the repository's operating-expenses test: revenue 1000000,
  operating expenses 400000, benchmark 25, savings potential 150000.
\<close>

theorem savings_nonneg_for_positive_revenue_witness:
  "map savingsPotential
     (generateCostOptimizationRecommendations toFixed_any no_ratios high_opex_metrics
        opex_benchmark_25) = [Num 150000]
   \<and> js_ge (Num 150000) (Num 0)"
proof -
  have v: "map savingsPotential
     (generateCostOptimizationRecommendations toFixed_any no_ratios high_opex_metrics
        opex_benchmark_25) = [Num 150000]"
    by (simp add: generateCostOptimizationRecommendations_def Let_def cost_blocks
          high_opex_metrics_def no_metrics_def no_ratios_def opex_benchmark_25_def
          js_or_undef_def js_or_def js_gt_def js_sub_def)
  have "revenue high_opex_metrics = None \<or> js_gt (the (revenue high_opex_metrics)) (Num 0)"
    by (simp add: high_opex_metrics_def no_metrics_def js_gt_def)
  from savings_nonneg_for_positive_revenue [OF this, of toFixed_any no_ratios opex_benchmark_25]
  have "list_all (\<lambda>s. js_ge s (Num 0)) (map savingsPotential
     (generateCostOptimizationRecommendations toFixed_any no_ratios high_opex_metrics
        opex_benchmark_25))"
    by (simp add: list_all_iff)
  with v show ?thesis by simp
qed

end
